theory Spec2Isabelle
  imports Complex_Main
begin

section \<open>JavaScript values\<close>

text \<open>
  The adapter of \<^verbatim>\<open>src/lib/ai-providers/grok-adapter.ts\<close> works on untyped
  JavaScript values: the schema document, the outgoing payload and the parsed response body
  are all of type \<^verbatim>\<open>any\<close>. They are modelled by one datatype. An object is the list of
  its own enumerable properties in enumeration order (what \<^verbatim>\<open>Object.entries\<close> returns and
  what \<^verbatim>\<open>JSON.stringify\<close> writes); a JavaScript object has no property twice, which
  \<open>wf_value\<close> below states. Numbers are the finite ones, taken as reals. A string is the
  list of its code units, and a \<open>char\<close> is a code unit below 256 (the Latin-1 range of
  Unicode, where it is the code point): strings with a code unit beyond that are not values
  of the model.
\<close>

datatype jsval =
    Undefined
  | Null
  | Bool bool
  | Num real
  | Str string
  | Arr "jsval list"
  | Obj "(string \<times> jsval) list"

type_synonym entries = "(string \<times> jsval) list"

text \<open>Truthiness (\<^verbatim>\<open>!v\<close>, \<^verbatim>\<open>v ? a : b\<close>, \<^verbatim>\<open>a || b\<close>, \<^verbatim>\<open>a && b\<close>).\<close>

fun truthy :: "jsval \<Rightarrow> bool" where
  "truthy Undefined = False"
| "truthy Null = False"
| "truthy (Bool b) = b"
| "truthy (Num r) = (r \<noteq> 0)"
| "truthy (Str s) = (s \<noteq> [])"
| "truthy (Arr xs) = True"
| "truthy (Obj es) = True"

fun nullish :: "jsval \<Rightarrow> bool" where
  "nullish Undefined = True"
| "nullish Null = True"
| "nullish v = False"

text \<open>\<^verbatim>\<open>a ?? b\<close> and \<^verbatim>\<open>a || b\<close>.\<close>

definition nullish_or :: "jsval \<Rightarrow> jsval \<Rightarrow> jsval" where
  "nullish_or a b = (if nullish a then b else a)"

definition or_else :: "jsval \<Rightarrow> jsval \<Rightarrow> jsval" where
  "or_else a b = (if truthy a then a else b)"

text \<open>\<^verbatim>\<open>typeof v === 'string'\<close> and \<^verbatim>\<open>typeof v === 'number'\<close>.\<close>

fun is_string :: "jsval \<Rightarrow> bool" where
  "is_string (Str s) = True"
| "is_string v = False"

fun is_number :: "jsval \<Rightarrow> bool" where
  "is_number (Num r) = True"
| "is_number v = False"

text \<open>
  A property read \<^verbatim>\<open>v.k\<close> on a value that is neither \<^verbatim>\<open>null\<close> nor \<^verbatim>\<open>undefined\<close>
  (the adapter reads no property of such a value: every read is behind a truthiness test,
  a \<^verbatim>\<open>??\<close> default or \<^verbatim>\<open>?.\<close>). The names the adapter reads are none of those that the
  built-in prototypes define, so a read on a string, a number, a boolean or an array, or of
  a name the object does not own, is \<^verbatim>\<open>undefined\<close>. \<open>opt_get\<close> is \<^verbatim>\<open>v?.k\<close>.
\<close>

fun get :: "jsval \<Rightarrow> string \<Rightarrow> jsval" where
  "get (Obj es) k = (case map_of es k of Some v \<Rightarrow> v | None \<Rightarrow> Undefined)"
| "get v k = Undefined"

definition opt_get :: "jsval \<Rightarrow> string \<Rightarrow> jsval" where
  "opt_get v k = (if nullish v then Undefined else get v k)"

text \<open>
  An assignment \<^verbatim>\<open>o[k] = v\<close> to an ordinary object made by an object literal. A property
  the object owns is overwritten in place, a new one is added last. The name \<^verbatim>\<open>__proto__\<close>
  is the exception: the object inherits the accessor \<^verbatim>\<open>Object.prototype.__proto__\<close> (Node.js
  and the browsers have it), so the assignment calls that setter, which replaces the
  prototype (when \<open>v\<close> is an object or \<^verbatim>\<open>null\<close>) or does nothing, and in neither case
  gives the object a property of its own. \<^verbatim>\<open>JSON.parse\<close>, in contrast, defines the
  properties it reads, so a parsed object can own that name.
\<close>

fun assign :: "entries \<Rightarrow> string \<Rightarrow> jsval \<Rightarrow> entries" where
  "assign [] k v = [(k, v)]"
| "assign ((k', v') # es) k v =
     (if k' = k then (k, v) # es else (k', v') # assign es k v)"

definition set_property :: "entries \<Rightarrow> string \<Rightarrow> jsval \<Rightarrow> entries" where
  "set_property es k v = (if k = ''__proto__'' then es else assign es k v)"

text \<open>Values that a JavaScript object graph can be: no object owns a name twice.\<close>

fun wf_value :: "jsval \<Rightarrow> bool"
and wf_elements :: "jsval list \<Rightarrow> bool"
and wf_entries :: "entries \<Rightarrow> bool"
where
  "wf_value (Arr xs) = wf_elements xs"
| "wf_value (Obj es) = (distinct (map fst es) \<and> wf_entries es)"
| "wf_value v = True"
| "wf_elements [] = True"
| "wf_elements (x # xs) = (wf_value x \<and> wf_elements xs)"
| "wf_entries [] = True"
| "wf_entries ((k, v) # es) = (wf_value v \<and> wf_entries es)"

section \<open>Schema sanitizer\<close>

definition UNSUPPORTED_SCHEMA_PROPS :: "string list" where
  "UNSUPPORTED_SCHEMA_PROPS =
     [''minLength'', ''maxLength'', ''minItems'', ''maxItems'',
      ''minContains'', ''maxContains'', ''$schema'']"

text \<open>
  \<^verbatim>\<open>sanitizeSchemaForGrok\<close>: a falsy or non-object value is returned as it is, an array is
  mapped, and for an object the loop over \<^verbatim>\<open>Object.entries(schema)\<close> fills a fresh
  \<^verbatim>\<open>result\<close>; \<open>sanitize_entries\<close> is that loop, with \<open>result\<close> as its accumulator.
\<close>

fun sanitizeSchemaForGrok :: "jsval \<Rightarrow> jsval"
and sanitize_elements :: "jsval list \<Rightarrow> jsval list"
and sanitize_entries :: "entries \<Rightarrow> entries \<Rightarrow> entries"
where
  "sanitizeSchemaForGrok Undefined = Undefined"
| "sanitizeSchemaForGrok Null = Null"
| "sanitizeSchemaForGrok (Bool b) = Bool b"
| "sanitizeSchemaForGrok (Num r) = Num r"
| "sanitizeSchemaForGrok (Str s) = Str s"
| "sanitizeSchemaForGrok (Arr xs) = Arr (sanitize_elements xs)"
| "sanitizeSchemaForGrok (Obj es) = Obj (sanitize_entries es [])"
| "sanitize_elements [] = []"
| "sanitize_elements (x # xs) = sanitizeSchemaForGrok x # sanitize_elements xs"
| "sanitize_entries [] result = result"
| "sanitize_entries ((key, val) # es) result =
     (if key \<in> set UNSUPPORTED_SCHEMA_PROPS then sanitize_entries es result
      else sanitize_entries es (set_property result key (sanitizeSchemaForGrok val)))"

section \<open>Schema name\<close>

text \<open>
  \<^verbatim>\<open>String.prototype.trim\<close> strips the white space and the line terminators of
  ECMAScript from both ends. Below 256 these are the tab (U+0009), the line feed (U+000A),
  the vertical tab (U+000B), the form feed (U+000C), the carriage return (U+000D), the
  space (U+0020) and the no-break space (U+00A0); the others (U+FEFF, U+2028, U+2029 and
  the space separators from U+1680 on) are beyond the code units of the model.
\<close>

definition is_whitespace :: "char \<Rightarrow> bool" where
  "is_whitespace c =
     (c \<in> set [CHR 0x09, CHR 0x0A, CHR 0x0B, CHR 0x0C, CHR 0x0D, CHR 0x20, CHR 0xA0])"

definition trim :: "string \<Rightarrow> string" where
  "trim s = rev (dropWhile is_whitespace (rev (dropWhile is_whitespace s)))"

definition ensureSchemaName :: "string option \<Rightarrow> string" where
  "ensureSchemaName name =
     (case name of
        None \<Rightarrow> ''ResponseSchema''
      | Some n \<Rightarrow> if n \<noteq> [] \<and> length (trim n) > 0 then trim n else ''ResponseSchema'')"

section \<open>Text extraction\<close>

text \<open>
  One round of the loop over the parts of \<^verbatim>\<open>content\<close>: \<open>Some s\<close> is \<^verbatim>\<open>return s\<close>,
  \<open>None\<close> goes on to the next part.
\<close>

definition scan_part :: "jsval \<Rightarrow> string option" where
  "scan_part part =
     (if \<not> truthy part then None
      else case part of
        Str s \<Rightarrow> Some s
      | _ \<Rightarrow>
        (case get part ''text'' of
           Str s \<Rightarrow> Some s
         | _ \<Rightarrow>
           (case get part ''output_text'' of
              Str s \<Rightarrow> Some s
            | _ \<Rightarrow>
              (case get part ''data'' of
                 Str s \<Rightarrow> Some s
               | _ \<Rightarrow> None))))"

fun scan_parts :: "jsval list \<Rightarrow> string option" where
  "scan_parts [] = None"
| "scan_parts (part # rest) =
     (case scan_part part of Some s \<Rightarrow> Some s | None \<Rightarrow> scan_parts rest)"

definition extractTextFromChoice :: "jsval \<Rightarrow> string" where
  "extractTextFromChoice choice =
     (if \<not> truthy choice then ''''
      else
        let message = nullish_or (nullish_or (get choice ''message'') (get choice ''delta'')) (Obj []);
            content = get message ''content''
        in case content of
             Str s \<Rightarrow> s
           | _ \<Rightarrow>
             (case (case content of Arr parts \<Rightarrow> scan_parts parts | _ \<Rightarrow> None) of
                Some s \<Rightarrow> s
              | None \<Rightarrow> (case get message ''text'' of Str s \<Rightarrow> s | _ \<Rightarrow> '''')))"

section \<open>Usage accounting\<close>

text \<open>\<^verbatim>\<open>a + b\<close> is reached only behind the two \<^verbatim>\<open>typeof\<close> tests, so on two numbers.\<close>

fun add_numbers :: "jsval \<Rightarrow> jsval \<Rightarrow> jsval" where
  "add_numbers (Num a) (Num b) = Num (a + b)"
| "add_numbers a b = Undefined"

definition normalizeUsage :: "jsval \<Rightarrow> jsval \<Rightarrow> jsval" where
  "normalizeUsage raw latencyMs =
     (if \<not> truthy raw then
        (if truthy latencyMs then Obj [(''latencyMs'', latencyMs)] else Undefined)
      else
        let promptTokens =
              nullish_or (nullish_or (nullish_or (get raw ''prompt_tokens'')
                (get raw ''promptTokens'')) (get raw ''input_tokens'')) (get raw ''inputTokens'');
            completionTokens =
              nullish_or (nullish_or (nullish_or (get raw ''completion_tokens'')
                (get raw ''completionTokens'')) (get raw ''output_tokens'')) (get raw ''outputTokens'');
            totalTokens =
              nullish_or (nullish_or (get raw ''total_tokens'') (get raw ''totalTokens''))
                (if is_number promptTokens \<and> is_number completionTokens
                 then add_numbers promptTokens completionTokens else Undefined)
        in Obj [(''promptTokens'', promptTokens),
                (''completionTokens'', completionTokens),
                (''totalTokens'', totalTokens),
                (''latencyMs'', latencyMs)])"

section \<open>Errors\<close>

text \<open>
  The adapter declares no error classes: each of its failures is
  \<^verbatim>\<open>throw new Error(message)\<close>, told apart by the message alone. \<open>Error m\<close> is such a
  value. What a collaborator throws (the schema converter, \<^verbatim>\<open>fetch\<close>, the reading of the
  body, a string conversion) is a \<open>thrown\<close>: an instance of \<^verbatim>\<open>Error\<close> with its name and
  message, which may be a \<^verbatim>\<open>DOMException\<close> (a subclass of \<^verbatim>\<open>Error\<close>), or any other
  value. \<open>Rethrown t\<close> is such a value leaving the adapter unchanged.
\<close>

datatype thrown =
    Thrown_Error (is_DOMException: bool) (error_name: string) (error_message: string)
  | Thrown_Value jsval

datatype error =
    Error string
  | Rethrown thrown

text \<open>
  The properties that an error made by \<^verbatim>\<open>new Error(m)\<close> shows to \<^verbatim>\<open>e.k\<close>: its message
  and the inherited name (the stack trace, which depends on the engine, is left out).
\<close>

definition new_Error_properties :: "string \<Rightarrow> entries" where
  "new_Error_properties m = [(''name'', Str ''Error''), (''message'', Str m)]"

section \<open>Payload builder\<close>

definition DEFAULT_MODEL :: string where
  "DEFAULT_MODEL = ''grok-4-1-fast-non-reasoning''"

definition PROVIDER_NAME :: string where
  "PROVIDER_NAME = ''grok''"

text \<open>
  \<^verbatim>\<open>ProviderGenerateParams\<close> is declared in \<^verbatim>\<open>./types\<close>, which is not among the sources.
  The fields are those the adapter reads. Where the adapter tests a field at run time
  (\<^verbatim>\<open>??\<close> on the model, \<^verbatim>\<open>typeof ... === 'number'\<close> on the sampling controls) the field is
  any value, \<open>Undefined\<close> when absent; the others have the type the adapter relies on:
  the prompt a string, the timeout a number or absent, the schema name a string or absent,
  and the Zod schema an opaque descriptor of type \<open>'z\<close> or absent.
\<close>

record 'z ProviderGenerateParams =
  prompt :: string
  model :: jsval
  temperature :: jsval
  topP :: jsval
  maxOutputTokens :: jsval
  timeoutMs :: "real option"
  zodSchema :: "'z option"
  schemaName :: "string option"

text \<open>
  \<^verbatim>\<open>buildPayload\<close>. The converter \<^verbatim>\<open>z.toJSONSchema\<close> is a parameter: it returns the
  JSON-Schema document or throws. The \<^verbatim>\<open>catch\<close> turns whatever was thrown inside the
  \<^verbatim>\<open>try\<close> into a new \<^verbatim>\<open>Error\<close>; the write to the console is not modelled.
\<close>

definition conversion_failure :: "thrown \<Rightarrow> error" where
  "conversion_failure t =
     (case t of
        Thrown_Error d n m \<Rightarrow> Error (''Failed to convert schema: '' @ m)
      | Thrown_Value v \<Rightarrow> Error ''Failed to convert schema'')"

definition buildPayload ::
  "('z \<Rightarrow> thrown + jsval) \<Rightarrow> 'z ProviderGenerateParams \<Rightarrow> error + jsval" where
  "buildPayload toJSONSchema params =
     (let payload0 =
            [(''model'', nullish_or (model params) (Str DEFAULT_MODEL)),
             (''messages'',
                Arr [Obj [(''role'', Str ''user''), (''content'', Str (prompt params))]])];
          payload1 =
            (if is_number (temperature params)
             then set_property payload0 ''temperature'' (temperature params) else payload0);
          payload2 =
            (if is_number (topP params)
             then set_property payload1 ''top_p'' (topP params) else payload1);
          payload3 =
            (if is_number (maxOutputTokens params)
             then set_property payload2 ''max_output_tokens'' (maxOutputTokens params)
             else payload2)
      in case zodSchema params of
           None \<Rightarrow> Inr (Obj payload3)
         | Some schema \<Rightarrow>
           (case toJSONSchema schema of
              Inl t \<Rightarrow> Inl (conversion_failure t)
            | Inr jsonSchema \<Rightarrow>
                let sanitizedSchema = sanitizeSchemaForGrok jsonSchema
                in Inr (Obj (set_property payload3 ''response_format''
                     (Obj [(''type'', Str ''json_schema''),
                           (''json_schema'',
                              Obj [(''name'', Str (ensureSchemaName (schemaName params))),
                                   (''schema'', sanitizedSchema)])])))))"

section \<open>Timeout\<close>

text \<open>
  The effects of a call, in the order they happen: the deadline timer is set, the request
  is sent, the timer is cleared. A request records what is passed to \<^verbatim>\<open>fetch\<close>: the URL,
  the two headers, the payload that \<^verbatim>\<open>JSON.stringify\<close> serialises into the body, and
  whether the abort signal of a controller is attached.
\<close>

record request =
  url :: string
  authorization :: string
  content_type :: string
  body :: jsval
  signal :: bool

datatype event =
    SetTimeout real
  | Fetch request
  | ClearTimeout

text \<open>
  \<^verbatim>\<open>buildAbortController\<close>: \<open>Some ms\<close> is a controller whose timer, of delay \<open>ms\<close>,
  calls \<^verbatim>\<open>controller.abort()\<close>; \<open>None\<close> is \<^verbatim>\<open>{ controller: undefined, clear: () => undefined }\<close>.
  The first argument is \<^verbatim>\<open>typeof AbortController !== 'undefined'\<close>.
\<close>

definition buildAbortController :: "bool \<Rightarrow> real option \<Rightarrow> real option" where
  "buildAbortController AbortController_defined t =
     (case t of
        None \<Rightarrow> None
      | Some ms \<Rightarrow> if ms = 0 \<or> ms \<le> 0 \<or> \<not> AbortController_defined then None else Some ms)"

definition set_events :: "real option \<Rightarrow> event list" where
  "set_events controller = (case controller of None \<Rightarrow> [] | Some ms \<Rightarrow> [SetTimeout ms])"

definition clear :: "real option \<Rightarrow> event list" where
  "clear controller = (case controller of None \<Rightarrow> [] | Some ms \<Rightarrow> [ClearTimeout])"

text \<open>
  When the runtime runs the callback of \<^verbatim>\<open>setTimeout(callback, ms)\<close>: after \<open>ms\<close>
  milliseconds, the fraction dropped, when \<open>ms\<close> is between 1 and \<open>2\<^sup>3\<^sup>1 - 1\<close>, and after
  1 millisecond otherwise (Node.js sets a delay outside that range to 1, with a warning
  when it is too large, and truncates the delay when it starts the timer).
\<close>

definition TIMEOUT_MAX :: real where
  "TIMEOUT_MAX = 2147483647"

definition timer_fires_after :: "real \<Rightarrow> real" where
  "timer_fires_after ms = (if 1 \<le> ms \<and> ms \<le> TIMEOUT_MAX then of_int \<lfloor>ms\<rfloor> else 1)"

text \<open>The timers that a sequence of effects leaves pending.\<close>

fun pending_timers :: "event list \<Rightarrow> nat \<Rightarrow> nat" where
  "pending_timers [] n = n"
| "pending_timers (SetTimeout ms # evs) n = pending_timers evs (Suc n)"
| "pending_timers (ClearTimeout # evs) n = pending_timers evs (n - 1)"
| "pending_timers (Fetch r # evs) n = pending_timers evs n"

section \<open>Adapter\<close>

text \<open>The two environment variables that \<^verbatim>\<open>createGrokAdapter\<close> reads.\<close>

record environment =
  XAI_API_KEY :: "string option"
  XAI_API_BASE_URL :: "string option"

text \<open>
  The adapter object: its two data fields, and the two variables its \<^verbatim>\<open>generate\<close> closes
  over.
\<close>

record adapter =
  name :: string
  defaultModel :: string
  apiKey :: string
  baseUrl :: string

text \<open>\<^verbatim>\<open>s.replace(/\/$/, '')\<close>: one slash at the end of the string is taken off.\<close>

definition strip_trailing_slash :: "string \<Rightarrow> string" where
  "strip_trailing_slash s = (if s \<noteq> [] \<and> last s = CHR ''/'' then butlast s else s)"

definition createGrokAdapter :: "environment \<Rightarrow> error + adapter" where
  "createGrokAdapter env =
     (case XAI_API_KEY env of
        None \<Rightarrow> Inl (Error ''XAI_API_KEY is required to use the Grok provider. Set the environment variable and try again.'')
      | Some key \<Rightarrow>
          if key = [] then Inl (Error ''XAI_API_KEY is required to use the Grok provider. Set the environment variable and try again.'')
          else Inr \<lparr> name = PROVIDER_NAME, defaultModel = DEFAULT_MODEL, apiKey = key,
                     baseUrl = (case XAI_API_BASE_URL env of
                                  None \<Rightarrow> ''https://api.x.ai/v1''
                                | Some u \<Rightarrow> strip_trailing_slash u) \<rparr>)"

text \<open>
  What the adapter's surroundings do during one call: the schema converter, whether
  \<^verbatim>\<open>AbortController\<close> exists, the two readings of \<^verbatim>\<open>Date.now()\<close>, \<^verbatim>\<open>fetch\<close>,
  \<^verbatim>\<open>JSON.parse\<close> (\<open>None\<close> when it throws) and the conversion to a string of a value that
  a template literal interpolates, for the values where it is not immediate.
\<close>

record response =
  ok :: bool
  statusText :: string
  body_text :: "thrown + string"

record 'z runtime =
  toJSONSchema :: "'z \<Rightarrow> thrown + jsval"
  AbortController_defined :: bool
  now_started :: int
  now_received :: int
  fetch :: "request \<Rightarrow> thrown + response"
  JSON_parse :: "string \<Rightarrow> jsval option"
  ToString :: "jsval \<Rightarrow> thrown + string"

text \<open>
  The result of a call. Its field \<^verbatim>\<open>model\<close> is \<open>result_model\<close> here, the parameters
  having a field of that name.
\<close>

record ProviderGenerateResult =
  content :: string
  rawResponse :: jsval
  provider :: string
  result_model :: jsval
  usage :: jsval

text \<open>
  The decimal digits of a natural number, and the string of an integer as
  \<^verbatim>\<open>Number.prototype.toString\<close> writes it.
\<close>

fun decimal :: "nat \<Rightarrow> string" where
  "decimal n =
     (if n < 10 then [''0123456789'' ! n]
      else decimal (n div 10) @ [''0123456789'' ! (n mod 10)])"

declare decimal.simps [simp del]

definition integer_string :: "int \<Rightarrow> string" where
  "integer_string i = (if i < 0 then CHR ''-'' # decimal (nat (- i)) else decimal (nat i))"

text \<open>
  The string that a template literal makes of an interpolated value (the conversion
  \<^verbatim>\<open>ToString\<close> of ECMAScript). A string is itself; \<^verbatim>\<open>undefined\<close>, \<^verbatim>\<open>null\<close> and the
  booleans give their names; a number that is an integer of magnitude below \<open>2\<^sup>5\<^sup>3\<close> gives
  its decimal digits, with a minus sign when negative. For the other numbers (fractions,
  and the large ones, which are written with the fewest digits that identify the double),
  for arrays and for objects (whose conversion can throw) the string is the runtime's.
\<close>

fun interpolate :: "(jsval \<Rightarrow> thrown + string) \<Rightarrow> jsval \<Rightarrow> thrown + string" where
  "interpolate conv (Str s) = Inr s"
| "interpolate conv Undefined = Inr ''undefined''"
| "interpolate conv Null = Inr ''null''"
| "interpolate conv (Bool b) = Inr (if b then ''true'' else ''false'')"
| "interpolate conv (Num r) =
     (if r = of_int \<lfloor>r\<rfloor> \<and> \<bar>r\<bar> < 9007199254740992 then Inr (integer_string \<lfloor>r\<rfloor>)
      else conv (Num r))"
| "interpolate conv v = conv v"

text \<open>The branch \<^verbatim>\<open>if (!response.ok)\<close>, which always throws.\<close>

definition api_error :: "(jsval \<Rightarrow> thrown + string) \<Rightarrow> jsval \<Rightarrow> string \<Rightarrow> error" where
  "api_error conv parsed status_text =
     (let message =
            or_else (or_else (or_else (opt_get (opt_get parsed ''error'') ''message'')
              (opt_get parsed ''message'')) (Str status_text)) (Str ''Unknown error'');
          code = or_else (opt_get (opt_get parsed ''error'') ''code'') (opt_get parsed ''code'')
      in case (if truthy code
               then (case interpolate conv code of
                       Inl t \<Rightarrow> Inl t
                     | Inr c \<Rightarrow> Inr ('' ('' @ c @ '')''))
               else Inr '''') of
           Inl t \<Rightarrow> Rethrown t
         | Inr code_part \<Rightarrow>
           (case interpolate conv message of
              Inl t \<Rightarrow> Rethrown t
            | Inr m \<Rightarrow> Error (''Grok API error'' @ code_part @ '': '' @ m)))"

text \<open>
  \<^verbatim>\<open>Array.isArray(parsed?.choices) ? parsed.choices[0] : undefined\<close>; the first element
  of an empty array is \<^verbatim>\<open>undefined\<close>.
\<close>

definition first_choice :: "jsval \<Rightarrow> jsval" where
  "first_choice parsed =
     (case opt_get parsed ''choices'' of
        Arr [] \<Rightarrow> Undefined
      | Arr (c # cs) \<Rightarrow> c
      | _ \<Rightarrow> Undefined)"

text \<open>
  The statements after the body has been read, to the \<^verbatim>\<open>return\<close>; the write to the
  console on a parse failure is not modelled.
\<close>

definition handle_body ::
  "'z runtime \<Rightarrow> jsval \<Rightarrow> response \<Rightarrow> string \<Rightarrow> error + ProviderGenerateResult" where
  "handle_body rt payload resp responseText =
     (case (if responseText \<noteq> [] then JSON_parse rt responseText else Some Undefined) of
        None \<Rightarrow> Inl (Error ''Grok API returned a non-JSON response.'')
      | Some parsed \<Rightarrow>
          if \<not> ok resp then Inl (api_error (ToString rt) parsed (statusText resp))
          else
            let latencyMs = Num (of_int (now_received rt - now_started rt));
                choice = first_choice parsed;
                content = extractTextFromChoice choice
            in if content = [] then Inl (Error ''Grok API returned an empty response.'')
               else Inr \<lparr> content = content, rawResponse = parsed, provider = PROVIDER_NAME,
                          result_model = nullish_or (opt_get parsed ''model'') (get payload ''model''),
                          usage = normalizeUsage (opt_get parsed ''usage'') latencyMs \<rparr>)"

text \<open>The arguments of the call of \<^verbatim>\<open>fetch\<close>.\<close>

definition build_request :: "adapter \<Rightarrow> jsval \<Rightarrow> real option \<Rightarrow> request" where
  "build_request a payload controller =
     \<lparr> url = baseUrl a @ ''/chat/completions'',
       authorization = ''Bearer '' @ apiKey a,
       content_type = ''application/json'',
       body = payload,
       signal = (controller \<noteq> None) \<rparr>"

text \<open>The \<^verbatim>\<open>try\<close> block of \<^verbatim>\<open>generate\<close>, with the request it sends, if it sends one.\<close>

definition try_block ::
  "adapter \<Rightarrow> 'z runtime \<Rightarrow> 'z ProviderGenerateParams \<Rightarrow> real option
     \<Rightarrow> (error + ProviderGenerateResult) \<times> event list" where
  "try_block a rt params controller =
     (case buildPayload (toJSONSchema rt) params of
        Inl e \<Rightarrow> (Inl e, [])
      | Inr payload \<Rightarrow>
          let req = build_request a payload controller
          in (case fetch rt req of
                Inl t \<Rightarrow> Inl (Rethrown t)
              | Inr resp \<Rightarrow>
                (case body_text resp of
                   Inl t \<Rightarrow> Inl (Rethrown t)
                 | Inr responseText \<Rightarrow> handle_body rt payload resp responseText),
              [Fetch req]))"

text \<open>The \<^verbatim>\<open>catch\<close> of \<^verbatim>\<open>generate\<close>: an abort becomes the time-out error, the rest is rethrown.\<close>

fun on_catch :: "error \<Rightarrow> error" where
  "on_catch (Rethrown (Thrown_Error d n m)) =
     (if d \<and> n = ''AbortError'' then Error ''Grok request timed out.''
      else Rethrown (Thrown_Error d n m))"
| "on_catch e = e"

text \<open>
  \<^verbatim>\<open>generate\<close>: the promise's outcome (\<open>Inl\<close> a rejection, \<open>Inr\<close> the result) and the
  effects of the call; the last of them is the \<^verbatim>\<open>finally\<close>.
\<close>

definition generate ::
  "adapter \<Rightarrow> 'z runtime \<Rightarrow> 'z ProviderGenerateParams
     \<Rightarrow> (error + ProviderGenerateResult) \<times> event list" where
  "generate a rt params =
     (let controller = buildAbortController (AbortController_defined rt) (timeoutMs params);
          (outcome, sent) = try_block a rt params controller
      in ((case outcome of Inl e \<Rightarrow> Inl (on_catch e) | Inr r \<Rightarrow> Inr r),
          set_events controller @ sent @ clear controller))"

section \<open>Notions used to state the properties\<close>

text \<open>The names of the properties that an object owns, in enumeration order.\<close>

fun own_keys :: "jsval \<Rightarrow> string list" where
  "own_keys (Obj es) = map fst es"
| "own_keys v = []"

text \<open>
  Some object of the value, at any depth, owns a property whose name satisfies \<open>P\<close>.
\<close>

fun key_occurs :: "(string \<Rightarrow> bool) \<Rightarrow> jsval \<Rightarrow> bool"
and key_occurs_elements :: "(string \<Rightarrow> bool) \<Rightarrow> jsval list \<Rightarrow> bool"
and key_occurs_entries :: "(string \<Rightarrow> bool) \<Rightarrow> entries \<Rightarrow> bool"
where
  "key_occurs P (Arr xs) = key_occurs_elements P xs"
| "key_occurs P (Obj es) = key_occurs_entries P es"
| "key_occurs P v = False"
| "key_occurs_elements P [] = False"
| "key_occurs_elements P (x # xs) = (key_occurs P x \<or> key_occurs_elements P xs)"
| "key_occurs_entries P [] = False"
| "key_occurs_entries P ((k, v) # es) = (P k \<or> key_occurs P v \<or> key_occurs_entries P es)"

text \<open>
  The specification's sanitizer, for a set \<open>P\<close> of banned names: the copy of the value in
  which every property whose name is banned is left out, at every depth, and everything
  else is kept as it is and where it is.
\<close>

fun strip_keys :: "(string \<Rightarrow> bool) \<Rightarrow> jsval \<Rightarrow> jsval"
and strip_keys_elements :: "(string \<Rightarrow> bool) \<Rightarrow> jsval list \<Rightarrow> jsval list"
and strip_keys_entries :: "(string \<Rightarrow> bool) \<Rightarrow> entries \<Rightarrow> entries"
where
  "strip_keys P (Arr xs) = Arr (strip_keys_elements P xs)"
| "strip_keys P (Obj es) = Obj (strip_keys_entries P es)"
| "strip_keys P v = v"
| "strip_keys_elements P [] = []"
| "strip_keys_elements P (x # xs) = strip_keys P x # strip_keys_elements P xs"
| "strip_keys_entries P [] = []"
| "strip_keys_entries P ((k, v) # es) =
     (if P k then strip_keys_entries P es else (k, strip_keys P v) # strip_keys_entries P es)"

definition banned :: "string \<Rightarrow> bool" where
  "banned k = (k \<in> set UNSUPPORTED_SCHEMA_PROPS)"

definition dropped :: "string \<Rightarrow> bool" where
  "dropped k = (banned k \<or> k = ''__proto__'')"

text \<open>The first of several alternatives that is neither \<^verbatim>\<open>null\<close> nor \<^verbatim>\<open>undefined\<close>.\<close>

fun coalesce :: "jsval list \<Rightarrow> jsval" where
  "coalesce [] = Undefined"
| "coalesce [v] = v"
| "coalesce (v # vs) = (if nullish v then coalesce vs else v)"

text \<open>The first string among several values.\<close>

fun first_string :: "jsval list \<Rightarrow> string option" where
  "first_string [] = None"
| "first_string (Str s # vs) = Some s"
| "first_string (v # vs) = first_string vs"

text \<open>
  The text of a part in the words of the specification: the part is itself a string, or
  carries a string under \<^verbatim>\<open>text\<close>, \<^verbatim>\<open>output_text\<close> or \<^verbatim>\<open>data\<close>.
\<close>

definition claimed_part_text :: "jsval \<Rightarrow> string option" where
  "claimed_part_text part =
     (case part of
        Str s \<Rightarrow> Some s
      | _ \<Rightarrow> first_string
               [opt_get part ''text'', opt_get part ''output_text'', opt_get part ''data''])"

text \<open>The same, where a part that is itself a string counts only when it is not empty.\<close>

definition nonempty_part_text :: "jsval \<Rightarrow> string option" where
  "nonempty_part_text part =
     (case part of
        Str s \<Rightarrow> if s = [] then None else Some s
      | _ \<Rightarrow> first_string
               [opt_get part ''text'', opt_get part ''output_text'', opt_get part ''data''])"

text \<open>The text of the first part that has one.\<close>

definition first_match :: "(jsval \<Rightarrow> string option) \<Rightarrow> jsval list \<Rightarrow> string option" where
  "first_match f parts =
     (case List.find (\<lambda>part. f part \<noteq> None) parts of None \<Rightarrow> None | Some part \<Rightarrow> f part)"

text \<open>
  The extraction of the specification, by its three strategies in order, for a given
  reading \<open>part_text\<close> of what the text of a part is.
\<close>

definition spec_extractText :: "(jsval \<Rightarrow> string option) \<Rightarrow> jsval \<Rightarrow> string" where
  "spec_extractText part_text choice =
     (let message = coalesce [opt_get choice ''message'', opt_get choice ''delta''];
          content = opt_get message ''content''
      in case content of
           Str s \<Rightarrow> s
         | Arr parts \<Rightarrow>
             (case first_match part_text parts of
                Some s \<Rightarrow> s
              | None \<Rightarrow> (case opt_get message ''text'' of Str s \<Rightarrow> s | _ \<Rightarrow> ''''))
         | _ \<Rightarrow> (case opt_get message ''text'' of Str s \<Rightarrow> s | _ \<Rightarrow> ''''))"

text \<open>The entry that a sampling control adds to the payload: none unless it is a number.\<close>

definition sampling_entry :: "string \<Rightarrow> jsval \<Rightarrow> entries" where
  "sampling_entry k v = (if is_number v then [(k, v)] else [])"

text \<open>The first of several alternatives that is truthy, and the last when none is.\<close>

fun first_truthy :: "jsval list \<Rightarrow> jsval" where
  "first_truthy [] = Undefined"
| "first_truthy [v] = v"
| "first_truthy (v # vs) = (if truthy v then v else first_truthy vs)"

text \<open>
  The code and the message that a failure response reports: \<^verbatim>\<open>error.code\<close> or the
  \<^verbatim>\<open>code\<close> of the body; \<^verbatim>\<open>error.message\<close>, the \<^verbatim>\<open>message\<close> of the body, the status
  line, or \<^verbatim>\<open>Unknown error\<close>.
\<close>

definition upstream_code :: "jsval \<Rightarrow> jsval" where
  "upstream_code parsed =
     first_truthy [opt_get (opt_get parsed ''error'') ''code'', opt_get parsed ''code'']"

definition upstream_message :: "jsval \<Rightarrow> string \<Rightarrow> jsval" where
  "upstream_message parsed status_text =
     first_truthy [opt_get (opt_get parsed ''error'') ''message'', opt_get parsed ''message'',
                   Str status_text, Str ''Unknown error'']"

section \<open>Example data\<close>

text \<open>
  An adapter as \<^verbatim>\<open>createGrokAdapter\<close> makes it, parameters that give a prompt and nothing
  else, and a mock backend: a runtime in which \<^verbatim>\<open>fetch\<close> answers every request with the
  given response and \<^verbatim>\<open>JSON.parse\<close> reads its body as the given value.
\<close>

definition example_adapter :: adapter where
  "example_adapter =
     \<lparr> name = ''grok'', defaultModel = ''grok-4-1-fast-non-reasoning'',
       apiKey = ''xai-123'', baseUrl = ''https://api.x.ai/v1'' \<rparr>"

definition prompt_only :: "string \<Rightarrow> unit ProviderGenerateParams" where
  "prompt_only q =
     \<lparr> prompt = q, model = Undefined, temperature = Undefined, topP = Undefined,
       maxOutputTokens = Undefined, timeoutMs = None, zodSchema = None, schemaName = None \<rparr>"

definition mock_backend :: "response \<Rightarrow> jsval \<Rightarrow> unit runtime" where
  "mock_backend resp parsed =
     \<lparr> toJSONSchema = (\<lambda>z. Inr (Obj [])),
       AbortController_defined = True,
       now_started = 1000,
       now_received = 1042,
       fetch = (\<lambda>req. Inr resp),
       JSON_parse = (\<lambda>s. if body_text resp = Inr s then Some parsed else None),
       ToString = (\<lambda>v. Inr ''[object Object]'') \<rparr>"

definition success_body :: string where
  \<open>success_body = ''{"model":"m1","choices":[{"message":{"content":"4"}}]}''\<close>

definition success_parsed :: jsval where
  "success_parsed =
     Obj [(''model'', Str ''m1''),
          (''choices'', Arr [Obj [(''message'', Obj [(''content'', Str ''4'')])]])]"

definition rate_limit_body :: string where
  \<open>rate_limit_body = ''{"error":{"code":"rate_limited","message":"slow down"}}''\<close>

definition rate_limit_parsed :: jsval where
  "rate_limit_parsed =
     Obj [(''error'', Obj [(''code'', Str ''rate_limited''), (''message'', Str ''slow down'')])]"

text \<open>
  When the cancellation token of a call fires: the time after which the runtime runs the
  callback of the timer that the call sets, if it sets one.
\<close>

fun deadline :: "event list \<Rightarrow> real option" where
  "deadline [] = None"
| "deadline (SetTimeout ms # evs) = Some (timer_fires_after ms)"
| "deadline (e # evs) = deadline evs"

section \<open>Auxiliary facts\<close>

text \<open>The payload in closed form, and the outcome of a call step by step.\<close>

lemma assign_fresh: "k \<notin> fst ` set es \<Longrightarrow> assign es k v = es @ [(k, v)]"
  by (induction es) auto

lemma buildPayload_closed:
  "buildPayload conv p =
     (let fields =
            [(''model'', nullish_or (model p) (Str DEFAULT_MODEL)),
             (''messages'', Arr [Obj [(''role'', Str ''user''), (''content'', Str (prompt p))]])]
            @ sampling_entry ''temperature'' (temperature p)
            @ sampling_entry ''top_p'' (topP p)
            @ sampling_entry ''max_output_tokens'' (maxOutputTokens p)
      in case zodSchema p of
           None \<Rightarrow> Inr (Obj fields)
         | Some schema \<Rightarrow>
           (case conv schema of
              Inl t \<Rightarrow> Inl (conversion_failure t)
            | Inr jsonSchema \<Rightarrow>
                Inr (Obj (fields @ [(''response_format'',
                     Obj [(''type'', Str ''json_schema''),
                          (''json_schema'',
                             Obj [(''name'', Str (ensureSchemaName (schemaName p))),
                                  (''schema'', sanitizeSchemaForGrok jsonSchema)])])]))))"
proof -
  have 1: "\<And>es v. ''temperature'' \<notin> fst ` set es \<Longrightarrow>
      (if is_number v then set_property es ''temperature'' v else es) = es @ sampling_entry ''temperature'' v"
    by (simp add: sampling_entry_def set_property_def assign_fresh)
  have 2: "\<And>es v. ''top_p'' \<notin> fst ` set es \<Longrightarrow>
      (if is_number v then set_property es ''top_p'' v else es) = es @ sampling_entry ''top_p'' v"
    by (simp add: sampling_entry_def set_property_def assign_fresh)
  have 3: "\<And>es v. ''max_output_tokens'' \<notin> fst ` set es \<Longrightarrow>
      (if is_number v then set_property es ''max_output_tokens'' v else es) = es @ sampling_entry ''max_output_tokens'' v"
    by (simp add: sampling_entry_def set_property_def assign_fresh)
  have 4: "\<And>es v. ''response_format'' \<notin> fst ` set es \<Longrightarrow>
      set_property es ''response_format'' v = es @ [(''response_format'', v)]"
    by (simp add: set_property_def assign_fresh)
  let ?b = "[(''model'', nullish_or (model p) (Str DEFAULT_MODEL)),
             (''messages'', Arr [Obj [(''role'', Str ''user''), (''content'', Str (prompt p))]])]"
  have k1: "''temperature'' \<notin> fst ` set ?b" by simp
  have k2: "''top_p'' \<notin> fst ` set (?b @ sampling_entry ''temperature'' (temperature p))"
    by (auto simp: sampling_entry_def)
  have k3: "''max_output_tokens'' \<notin> fst ` set ((?b @ sampling_entry ''temperature'' (temperature p)) @ sampling_entry ''top_p'' (topP p))"
    by (auto simp: sampling_entry_def)
  have k4: "''response_format'' \<notin> fst ` set (((?b @ sampling_entry ''temperature'' (temperature p)) @ sampling_entry ''top_p'' (topP p)) @ sampling_entry ''max_output_tokens'' (maxOutputTokens p))"
    by (auto simp: sampling_entry_def)
  show ?thesis
    unfolding buildPayload_def Let_def 1 [OF k1] 2 [OF k2] 3 [OF k3] 4 [OF k4]
    by (simp split: option.splits sum.splits)
qed

lemma buildPayload_fields:
  assumes "buildPayload conv p = Inr payload"
  shows "own_keys payload =
        [''model'', ''messages'']
        @ (if is_number (temperature p) then [''temperature''] else [])
        @ (if is_number (topP p) then [''top_p''] else [])
        @ (if is_number (maxOutputTokens p) then [''max_output_tokens''] else [])
        @ (if zodSchema p = None then [] else [''response_format''])"
    and "get payload ''model'' = (if nullish (model p) then Str DEFAULT_MODEL else model p)"
    and "get payload ''messages'' =
        Arr [Obj [(''role'', Str ''user''), (''content'', Str (prompt p))]]"
    and "get payload ''temperature'' =
        (if is_number (temperature p) then temperature p else Undefined)"
    and "get payload ''top_p'' = (if is_number (topP p) then topP p else Undefined)"
    and "get payload ''max_output_tokens'' =
        (if is_number (maxOutputTokens p) then maxOutputTokens p else Undefined)"
  using assms unfolding buildPayload_closed Let_def
  by (auto simp: sampling_entry_def nullish_or_def split: option.splits sum.splits)

lemma generate_not_built:
  assumes "buildPayload (toJSONSchema rt) p = Inl e"
  shows "generate a rt p =
           (Inl (on_catch e),
            set_events (buildAbortController (AbortController_defined rt) (timeoutMs p))
            @ clear (buildAbortController (AbortController_defined rt) (timeoutMs p)))"
  using assms by (simp add: generate_def try_block_def Let_def)

lemma generate_built:
  assumes "buildPayload (toJSONSchema rt) p = Inr payload"
    and "c = buildAbortController (AbortController_defined rt) (timeoutMs p)"
  shows "generate a rt p =
           ((case fetch rt (build_request a payload c) of
               Inl t \<Rightarrow> Inl (on_catch (Rethrown t))
             | Inr resp \<Rightarrow>
               (case body_text resp of
                  Inl t \<Rightarrow> Inl (on_catch (Rethrown t))
                | Inr responseText \<Rightarrow>
                  (case handle_body rt payload resp responseText of
                     Inl e \<Rightarrow> Inl (on_catch e)
                   | Inr r \<Rightarrow> Inr r))),
            set_events c @ [Fetch (build_request a payload c)] @ clear c)"
  using assms by (simp add: generate_def try_block_def Let_def split: sum.splits)

lemma handle_body_success:
  assumes "ok resp" and "txt \<noteq> []" and "JSON_parse rt txt = Some parsed"
    and "extractTextFromChoice (first_choice parsed) \<noteq> []"
  shows "handle_body rt payload resp txt =
           Inr \<lparr> content = extractTextFromChoice (first_choice parsed),
                 rawResponse = parsed, provider = PROVIDER_NAME,
                 result_model = nullish_or (opt_get parsed ''model'') (get payload ''model''),
                 usage = normalizeUsage (opt_get parsed ''usage'')
                           (Num (of_int (now_received rt - now_started rt))) \<rparr>"
  using assms by (simp add: handle_body_def Let_def)

lemma api_error_codes:
  "api_error conv parsed st =
     (case (if truthy (upstream_code parsed)
            then (case interpolate conv (upstream_code parsed) of
                    Inl t \<Rightarrow> Inl t
                  | Inr c \<Rightarrow> Inr ('' ('' @ c @ '')''))
            else Inr '''') of
        Inl t \<Rightarrow> Rethrown t
      | Inr code_part \<Rightarrow>
        (case interpolate conv (upstream_message parsed st) of
           Inl t \<Rightarrow> Rethrown t
         | Inr m \<Rightarrow> Error (''Grok API error'' @ code_part @ '': '' @ m)))"
proof -
  have c: "or_else (opt_get (opt_get parsed ''error'') ''code'') (opt_get parsed ''code'')
             = upstream_code parsed"
    by (simp add: upstream_code_def or_else_def)
  have m: "or_else (or_else (or_else (opt_get (opt_get parsed ''error'') ''message'')
              (opt_get parsed ''message'')) (Str st)) (Str ''Unknown error'')
             = upstream_message parsed st"
    by (simp add: upstream_message_def or_else_def)
  show ?thesis unfolding api_error_def Let_def c m by (rule refl)
qed

lemma api_error_form:
  "(\<exists>t. api_error conv parsed st = Rethrown t)
   \<or> (\<exists>s. api_error conv parsed st = Error (''Grok API error'' @ s))"
  unfolding api_error_codes by (auto split: sum.splits)

lemma api_error_strings:
  "upstream_message parsed st = Str m \<Longrightarrow>
     (upstream_code parsed = Str c \<and> c \<noteq> [] \<longrightarrow>
        api_error conv parsed st = Error (''Grok API error ('' @ c @ ''): '' @ m))
   \<and> (\<not> truthy (upstream_code parsed) \<longrightarrow>
        api_error conv parsed st = Error (''Grok API error: '' @ m))"
  unfolding api_error_codes by simp

lemma api_error_interpolated:
  "(truthy (upstream_code parsed) \<and> interpolate conv (upstream_code parsed) = Inr c
      \<and> interpolate conv (upstream_message parsed st) = Inr m \<longrightarrow>
        api_error conv parsed st = Error (''Grok API error ('' @ c @ ''): '' @ m))
   \<and> (\<not> truthy (upstream_code parsed)
      \<and> interpolate conv (upstream_message parsed st) = Inr m \<longrightarrow>
        api_error conv parsed st = Error (''Grok API error: '' @ m))
   \<and> (truthy (upstream_code parsed) \<and> interpolate conv (upstream_code parsed) = Inl t \<longrightarrow>
        api_error conv parsed st = Rethrown t)
   \<and> ((\<not> truthy (upstream_code parsed) \<or> interpolate conv (upstream_code parsed) = Inr c)
      \<and> interpolate conv (upstream_message parsed st) = Inl t \<longrightarrow>
        api_error conv parsed st = Rethrown t)"
  unfolding api_error_codes by auto

lemma interpolate_integer:
  "n \<noteq> 0 \<Longrightarrow> \<bar>n\<bar> < 9007199254740992 \<Longrightarrow>
     truthy (Num (of_int n)) \<and> interpolate conv (Num (of_int n)) = Inr (integer_string n)"
proof -
  assume n: "n \<noteq> 0" and b: "\<bar>n\<bar> < 9007199254740992"
  have "\<bar>(of_int n :: real)\<bar> = of_int \<bar>n\<bar>" by simp
  also have "\<dots> < of_int 9007199254740992" using b by (simp only: of_int_less_iff)
  finally have "\<bar>(of_int n :: real)\<bar> < 9007199254740992" by simp
  then show ?thesis using n by simp
qed

lemma handle_body_failure:
  assumes "\<not> ok resp" and "if txt = [] then parsed = Undefined else JSON_parse rt txt = Some parsed"
  shows "handle_body rt payload resp txt = Inl (api_error (ToString rt) parsed (statusText resp))"
  using assms by (auto simp: handle_body_def split: if_splits)

lemma on_catch_not_non_json:
  "on_catch e = Error ''Grok API returned a non-JSON response.''
     \<longleftrightarrow> e = Error ''Grok API returned a non-JSON response.''"
proof (cases e)
  case (Error m)
  then show ?thesis by simp
next
  case (Rethrown t)
  then show ?thesis by (cases t) simp_all
qed

lemma api_error_not_non_json:
  "api_error conv parsed st \<noteq> Error ''Grok API returned a non-JSON response.''"
  using api_error_form [of conv parsed st] by auto

lemma buildPayload_error_form:
  "buildPayload conv p = Inl e \<Longrightarrow> \<exists>s. e = Error (''Failed to convert schema'' @ s)"
  unfolding buildPayload_closed Let_def
  by (auto simp: conversion_failure_def split: option.splits sum.splits thrown.splits)

lemma handle_body_non_json:
  "handle_body rt payload resp txt = Inl (Error ''Grok API returned a non-JSON response.'')
     \<longleftrightarrow> txt \<noteq> [] \<and> JSON_parse rt txt = None"
proof (cases "txt \<noteq> [] \<and> JSON_parse rt txt = None")
  case True
  then show ?thesis by (simp add: handle_body_def)
next
  case False
  then obtain parsed where
    p: "(if txt \<noteq> [] then JSON_parse rt txt else Some Undefined) = Some parsed"
    by (cases "txt = []") auto
  have "handle_body rt payload resp txt \<noteq> Inl (Error ''Grok API returned a non-JSON response.'')"
    unfolding handle_body_def p using api_error_not_non_json
    by (simp add: Let_def)
  with False show ?thesis by simp
qed

lemma generate_non_json_iff:
  "fst (generate a rt p) = Inl (Error ''Grok API returned a non-JSON response.'')
   \<longleftrightarrow> (\<exists>payload resp txt.
          buildPayload (toJSONSchema rt) p = Inr payload
        \<and> fetch rt (build_request a payload
             (buildAbortController (AbortController_defined rt) (timeoutMs p))) = Inr resp
        \<and> body_text resp = Inr txt \<and> txt \<noteq> [] \<and> JSON_parse rt txt = None)"
proof (cases "buildPayload (toJSONSchema rt) p")
  case (Inl e)
  then obtain s where "e = Error (''Failed to convert schema'' @ s)"
    using buildPayload_error_form by blast
  with Inl show ?thesis by (simp add: generate_not_built)
next
  case (Inr payload)
  let ?c = "buildAbortController (AbortController_defined rt) (timeoutMs p)"
  note g = generate_built [OF Inr refl, of a]
  show ?thesis
  proof (cases "fetch rt (build_request a payload ?c)")
    case (Inl t)
    with Inr g show ?thesis by (simp add: on_catch_not_non_json)
  next
    case fetched: (Inr resp)
    show ?thesis
    proof (cases "body_text resp")
      case (Inl t)
      with Inr g fetched show ?thesis by (simp add: on_catch_not_non_json)
    next
      case body: (Inr responseText)
      have "fst (generate a rt p) = Inl (Error ''Grok API returned a non-JSON response.'')
              \<longleftrightarrow> handle_body rt payload resp responseText = Inl (Error ''Grok API returned a non-JSON response.'')"
        using g fetched body by (simp add: on_catch_not_non_json split: sum.splits)
      then show ?thesis using Inr fetched body by (simp add: handle_body_non_json)
    qed
  qed
qed

section \<open>Construction of the adapter\<close>

text \<open>
  C8. When the environment holds no API key, \<^verbatim>\<open>createGrokAdapter\<close> throws at once and
  returns no adapter, so no call of \<^verbatim>\<open>generate\<close> can be the first to see the failure; an
  empty key counts as none. The error is the adapter's plain \<^verbatim>\<open>Error\<close> whose message names
  the missing variable, which is how this code signals a configuration error. With a key,
  construction succeeds, and the adapter has the fixed provider name, the default model and
  that key.
\<close>

theorem createGrokAdapter_fails_fast:
  "(XAI_API_KEY env = None \<or> XAI_API_KEY env = Some [] \<longrightarrow>
      createGrokAdapter env =
        Inl (Error ''XAI_API_KEY is required to use the Grok provider. Set the environment variable and try again.''))
   \<and> (\<forall>key. XAI_API_KEY env = Some key \<and> key \<noteq> [] \<longrightarrow>
        (\<exists>a. createGrokAdapter env = Inr a
           \<and> name a = ''grok'' \<and> name a = PROVIDER_NAME
           \<and> defaultModel a = ''grok-4-1-fast-non-reasoning'' \<and> defaultModel a = DEFAULT_MODEL
           \<and> apiKey a = key))"
  by (auto simp: createGrokAdapter_def PROVIDER_NAME_def DEFAULT_MODEL_def)

theorem createGrokAdapter_fails_fast_witness:
  "createGrokAdapter \<lparr> XAI_API_KEY = None, XAI_API_BASE_URL = None \<rparr> =
      Inl (Error ''XAI_API_KEY is required to use the Grok provider. Set the environment variable and try again.'')
   \<and> (\<exists>a. createGrokAdapter \<lparr> XAI_API_KEY = Some ''xai-123'', XAI_API_BASE_URL = None \<rparr> = Inr a
         \<and> name a = ''grok'' \<and> defaultModel a = ''grok-4-1-fast-non-reasoning''
         \<and> apiKey a = ''xai-123'')"
  using createGrokAdapter_fails_fast [of "\<lparr> XAI_API_KEY = None, XAI_API_BASE_URL = None \<rparr>"]
        createGrokAdapter_fails_fast [of "\<lparr> XAI_API_KEY = Some ''xai-123'', XAI_API_BASE_URL = None \<rparr>"]
  by auto

section \<open>Payload\<close>

text \<open>
  C3. A payload that \<^verbatim>\<open>buildPayload\<close> returns owns exactly: \<^verbatim>\<open>model\<close> (the given model,
  or the default one when none is given), \<^verbatim>\<open>messages\<close> (one entry of role \<^verbatim>\<open>user\<close> with
  the prompt), then each of \<^verbatim>\<open>temperature\<close>, \<^verbatim>\<open>top_p\<close> and \<^verbatim>\<open>max_output_tokens\<close> if and
  only if the parameter \<^verbatim>\<open>temperature\<close>, \<^verbatim>\<open>topP\<close>, \<^verbatim>\<open>maxOutputTokens\<close> is a number, with
  that number, and \<^verbatim>\<open>response_format\<close> if and only if a schema is given. For the
  parameters \<^verbatim>\<open>{prompt: "hi"}\<close> the payload is the model and the messages and nothing else;
  with \<^verbatim>\<open>topP: 0.9\<close> it has \<^verbatim>\<open>top_p\<close> 0.9 besides and no other sampling field.
\<close>

theorem buildPayload_sparse:
  "(buildPayload conv p = Inr payload \<longrightarrow>
      own_keys payload =
        [''model'', ''messages'']
        @ (if is_number (temperature p) then [''temperature''] else [])
        @ (if is_number (topP p) then [''top_p''] else [])
        @ (if is_number (maxOutputTokens p) then [''max_output_tokens''] else [])
        @ (if zodSchema p = None then [] else [''response_format''])
    \<and> get payload ''model'' = (if nullish (model p) then Str DEFAULT_MODEL else model p)
    \<and> get payload ''messages'' =
        Arr [Obj [(''role'', Str ''user''), (''content'', Str (prompt p))]]
    \<and> get payload ''temperature'' =
        (if is_number (temperature p) then temperature p else Undefined)
    \<and> get payload ''top_p'' = (if is_number (topP p) then topP p else Undefined)
    \<and> get payload ''max_output_tokens'' =
        (if is_number (maxOutputTokens p) then maxOutputTokens p else Undefined))
   \<and> buildPayload conv
        \<lparr> prompt = ''hi'', model = Undefined, temperature = Undefined, topP = Undefined,
          maxOutputTokens = Undefined, timeoutMs = None, zodSchema = None, schemaName = None \<rparr>
      = Inr (Obj [(''model'', Str ''grok-4-1-fast-non-reasoning''),
                  (''messages'', Arr [Obj [(''role'', Str ''user''), (''content'', Str ''hi'')]])])
   \<and> buildPayload conv
        \<lparr> prompt = ''hi'', model = Undefined, temperature = Undefined, topP = Num 0.9,
          maxOutputTokens = Undefined, timeoutMs = None, zodSchema = None, schemaName = None \<rparr>
      = Inr (Obj [(''model'', Str ''grok-4-1-fast-non-reasoning''),
                  (''messages'', Arr [Obj [(''role'', Str ''user''), (''content'', Str ''hi'')]]),
                  (''top_p'', Num 0.9)])"
proof (intro conjI impI)
  assume built: "buildPayload conv p = Inr payload"
  show "own_keys payload =
        [''model'', ''messages'']
        @ (if is_number (temperature p) then [''temperature''] else [])
        @ (if is_number (topP p) then [''top_p''] else [])
        @ (if is_number (maxOutputTokens p) then [''max_output_tokens''] else [])
        @ (if zodSchema p = None then [] else [''response_format''])"
    by (rule buildPayload_fields(1) [OF built])
  show "get payload ''model'' = (if nullish (model p) then Str DEFAULT_MODEL else model p)"
    by (rule buildPayload_fields(2) [OF built])
  show "get payload ''messages'' =
        Arr [Obj [(''role'', Str ''user''), (''content'', Str (prompt p))]]"
    by (rule buildPayload_fields(3) [OF built])
  show "get payload ''temperature'' =
        (if is_number (temperature p) then temperature p else Undefined)"
    by (rule buildPayload_fields(4) [OF built])
  show "get payload ''top_p'' = (if is_number (topP p) then topP p else Undefined)"
    by (rule buildPayload_fields(5) [OF built])
  show "get payload ''max_output_tokens'' =
        (if is_number (maxOutputTokens p) then maxOutputTokens p else Undefined)"
    by (rule buildPayload_fields(6) [OF built])
next
  show "buildPayload conv
        \<lparr> prompt = ''hi'', model = Undefined, temperature = Undefined, topP = Undefined,
          maxOutputTokens = Undefined, timeoutMs = None, zodSchema = None, schemaName = None \<rparr>
      = Inr (Obj [(''model'', Str ''grok-4-1-fast-non-reasoning''),
                  (''messages'', Arr [Obj [(''role'', Str ''user''), (''content'', Str ''hi'')]])])"
    unfolding buildPayload_closed
    by (simp add: sampling_entry_def nullish_or_def DEFAULT_MODEL_def)
  show "buildPayload conv
        \<lparr> prompt = ''hi'', model = Undefined, temperature = Undefined, topP = Num 0.9,
          maxOutputTokens = Undefined, timeoutMs = None, zodSchema = None, schemaName = None \<rparr>
      = Inr (Obj [(''model'', Str ''grok-4-1-fast-non-reasoning''),
                  (''messages'', Arr [Obj [(''role'', Str ''user''), (''content'', Str ''hi'')]]),
                  (''top_p'', Num 0.9)])"
    unfolding buildPayload_closed
    by (simp add: sampling_entry_def nullish_or_def DEFAULT_MODEL_def)
qed

theorem buildPayload_sparse_witness:
  "\<exists>payload.
     buildPayload (\<lambda>z::unit. Inr Null)
       \<lparr> prompt = ''hi'', model = Str ''grok-3'', temperature = Str ''0.5'', topP = Num 0.9,
         maxOutputTokens = Null, timeoutMs = None, zodSchema = None, schemaName = None \<rparr>
       = Inr payload
     \<and> own_keys payload = [''model'', ''messages'', ''top_p'']
     \<and> get payload ''top_p'' = Num 0.9
     \<and> get payload ''temperature'' = Undefined
     \<and> get payload ''max_output_tokens'' = Undefined
     \<and> get payload ''model'' = Str ''grok-3''"
proof -
  let ?p = "\<lparr> prompt = ''hi'', model = Str ''grok-3'', temperature = Str ''0.5'',
              topP = Num 0.9, maxOutputTokens = Null, timeoutMs = None, zodSchema = None,
              schemaName = None \<rparr> :: unit ProviderGenerateParams"
  let ?payload = "Obj [(''model'', Str ''grok-3''),
                       (''messages'', Arr [Obj [(''role'', Str ''user''), (''content'', Str ''hi'')]]),
                       (''top_p'', Num 0.9)]"
  have built: "buildPayload (\<lambda>z::unit. Inr Null) ?p = Inr ?payload"
    unfolding buildPayload_closed by (simp add: sampling_entry_def nullish_or_def)
  show ?thesis
    using built buildPayload_sparse [of "\<lambda>z::unit. Inr Null" ?p ?payload] by simp
qed

section \<open>Structured output\<close>

lemma all_dropWhile_iff: "(\<forall>x \<in> set (dropWhile P xs). P x) \<longleftrightarrow> (\<forall>x \<in> set xs. P x)"
proof
  assume a: "\<forall>x \<in> set (dropWhile P xs). P x"
  have "set xs = set (takeWhile P xs) \<union> set (dropWhile P xs)"
    by (metis set_append takeWhile_dropWhile_id)
  with a show "\<forall>x \<in> set xs. P x" by (auto dest: set_takeWhileD)
next
  assume "\<forall>x \<in> set xs. P x"
  then show "\<forall>x \<in> set (dropWhile P xs). P x" by (auto dest: set_dropWhileD)
qed

lemma trim_empty_iff: "trim s = [] \<longleftrightarrow> (\<forall>c \<in> set s. is_whitespace c)"
proof -
  have "trim s = [] \<longleftrightarrow> (\<forall>c \<in> set (rev (dropWhile is_whitespace s)). is_whitespace c)"
    by (simp add: trim_def)
  also have "\<dots> \<longleftrightarrow> (\<forall>c \<in> set (dropWhile is_whitespace s). is_whitespace c)" by simp
  also have "\<dots> \<longleftrightarrow> (\<forall>c \<in> set s. is_whitespace c)" by (rule all_dropWhile_iff)
  finally show ?thesis .
qed

text \<open>
  What \<open>trim\<close> computes: the string is the trimmed one between two runs of whitespace, and
  the trimmed one neither starts nor ends with whitespace.
\<close>

lemma trim_decompose:
  "\<exists>l r. s = l @ trim s @ r \<and> (\<forall>c \<in> set l. is_whitespace c) \<and> (\<forall>c \<in> set r. is_whitespace c)"
proof -
  let ?a = "takeWhile is_whitespace s"
  let ?m = "dropWhile is_whitespace s"
  let ?b = "rev (takeWhile is_whitespace (rev ?m))"
  have "rev ?m = takeWhile is_whitespace (rev ?m) @ dropWhile is_whitespace (rev ?m)" by simp
  then have "?m = rev (dropWhile is_whitespace (rev ?m)) @ ?b"
    by (metis rev_append rev_rev_ident)
  then have "s = ?a @ trim s @ ?b" unfolding trim_def
    by (metis takeWhile_dropWhile_id)
  moreover have "\<forall>c \<in> set ?a. is_whitespace c" by (auto dest: set_takeWhileD)
  moreover have "\<forall>c \<in> set ?b. is_whitespace c" by (auto dest: set_takeWhileD)
  ultimately show ?thesis by blast
qed

lemma last_dropWhile: "dropWhile P xs \<noteq> [] \<Longrightarrow> last (dropWhile P xs) = last xs"
  by (metis last_appendR takeWhile_dropWhile_id)

lemma trim_ends:
  assumes "trim s \<noteq> []"
  shows "\<not> is_whitespace (hd (trim s)) \<and> \<not> is_whitespace (last (trim s))"
proof -
  let ?m = "dropWhile is_whitespace s"
  let ?d = "dropWhile is_whitespace (rev ?m)"
  from assms have d: "?d \<noteq> []" by (simp add: trim_def)
  have m: "?m \<noteq> []"
  proof
    assume "?m = []"
    then have "?d = []" by (simp only: rev.simps dropWhile.simps)
    with d show False by simp
  qed
  have "last (trim s) = hd ?d" using d by (simp add: trim_def last_rev)
  moreover have "\<not> is_whitespace (hd ?d)" using d by (rule hd_dropWhile)
  moreover have "hd (trim s) = last ?d" using d by (simp add: trim_def hd_rev)
  moreover have "last ?d = last (rev ?m)" using d by (rule last_dropWhile)
  moreover have "last (rev ?m) = hd ?m" using m by (simp add: last_rev)
  moreover have "\<not> is_whitespace (hd ?m)" using m by (rule hd_dropWhile)
  ultimately show ?thesis by simp
qed

lemma ensureSchemaName_cases:
  "ensureSchemaName None = ''ResponseSchema''
   \<and> ((\<forall>c \<in> set s. is_whitespace c) \<longrightarrow> ensureSchemaName (Some s) = ''ResponseSchema'')
   \<and> (\<not> (\<forall>c \<in> set s. is_whitespace c) \<longrightarrow> ensureSchemaName (Some s) = trim s)"
proof (intro conjI impI)
  show "ensureSchemaName None = ''ResponseSchema''" by (simp add: ensureSchemaName_def)
  show "ensureSchemaName (Some s) = ''ResponseSchema''" if "\<forall>c \<in> set s. is_whitespace c"
    using that by (simp add: ensureSchemaName_def trim_empty_iff)
  show "ensureSchemaName (Some s) = trim s" if "\<not> (\<forall>c \<in> set s. is_whitespace c)"
  proof -
    from that have "trim s \<noteq> []" by (simp add: trim_empty_iff)
    moreover from that have "s \<noteq> []" by auto
    ultimately show ?thesis by (simp add: ensureSchemaName_def)
  qed
qed

lemma buildPayload_with_schema:
  "zodSchema p = Some z \<Longrightarrow>
     (\<forall>doc. conv z = Inr doc \<longrightarrow>
        (\<exists>payload. buildPayload conv p = Inr payload \<and>
           get payload ''response_format'' =
             Obj [(''type'', Str ''json_schema''),
                  (''json_schema'',
                     Obj [(''name'', Str (ensureSchemaName (schemaName p))),
                          (''schema'', sanitizeSchemaForGrok doc)])]))
   \<and> (\<forall>t. conv z = Inl t \<longrightarrow>
        buildPayload conv p =
          Inl (Error (case t of
                        Thrown_Error d n m \<Rightarrow> ''Failed to convert schema: '' @ m
                      | Thrown_Value v \<Rightarrow> ''Failed to convert schema'')))"
  unfolding buildPayload_closed Let_def
  by (auto simp: sampling_entry_def conversion_failure_def split: thrown.splits)

lemma generate_conversion_failure:
  assumes "zodSchema p = Some z" and "toJSONSchema rt z = Inl t"
  shows "generate a rt p =
           (Inl (Error (case t of
                          Thrown_Error d n m \<Rightarrow> ''Failed to convert schema: '' @ m
                        | Thrown_Value v \<Rightarrow> ''Failed to convert schema'')),
            set_events (buildAbortController (AbortController_defined rt) (timeoutMs p))
            @ clear (buildAbortController (AbortController_defined rt) (timeoutMs p)))"
proof -
  from assms have "buildPayload (toJSONSchema rt) p =
      Inl (Error (case t of
                    Thrown_Error d n m \<Rightarrow> ''Failed to convert schema: '' @ m
                  | Thrown_Value v \<Rightarrow> ''Failed to convert schema''))"
    using buildPayload_with_schema [of p z "toJSONSchema rt"] by simp
  then show ?thesis
    by (simp add: generate_def try_block_def Let_def split: thrown.splits)
qed

text \<open>
  C4. With a schema descriptor in the parameters, \<^verbatim>\<open>buildPayload\<close> converts it, sanitizes
  the document and puts it under \<^verbatim>\<open>response_format\<close> as
  \<^verbatim>\<open>{ type: "json_schema", json_schema: { name, schema } }\<close>. The name is
  \<^verbatim>\<open>ResponseSchema\<close> when no schema name is given or the given one is empty or all
  whitespace, and the given one trimmed otherwise: \<^verbatim>\<open>" Foo "\<close> gives \<^verbatim>\<open>Foo\<close>. Whitespace
  is what \<^verbatim>\<open>trim\<close> strips, the no-break space (U+00A0) included. When the
  converter throws, \<^verbatim>\<open>buildPayload\<close> returns no payload: it throws the adapter's
  \<^verbatim>\<open>Error\<close> whose message starts with \<^verbatim>\<open>Failed to convert schema\<close> (this code's
  validation error), \<^verbatim>\<open>generate\<close> rejects with it, and no request is sent.
\<close>

theorem buildPayload_structured_output:
  "(zodSchema p = Some z \<longrightarrow>
      (\<forall>doc. conv z = Inr doc \<longrightarrow>
         (\<exists>payload. buildPayload conv p = Inr payload \<and>
            get payload ''response_format'' =
              Obj [(''type'', Str ''json_schema''),
                   (''json_schema'',
                      Obj [(''name'', Str (ensureSchemaName (schemaName p))),
                           (''schema'', sanitizeSchemaForGrok doc)])]))
    \<and> (\<forall>t. conv z = Inl t \<longrightarrow>
         buildPayload conv p =
           Inl (Error (case t of
                         Thrown_Error d n m \<Rightarrow> ''Failed to convert schema: '' @ m
                       | Thrown_Value v \<Rightarrow> ''Failed to convert schema'')))
    \<and> (\<forall>t. toJSONSchema rt z = Inl t \<longrightarrow>
         fst (generate a rt p) =
           Inl (Error (case t of
                         Thrown_Error d n m \<Rightarrow> ''Failed to convert schema: '' @ m
                       | Thrown_Value v \<Rightarrow> ''Failed to convert schema''))
         \<and> (\<forall>r. Fetch r \<notin> set (snd (generate a rt p)))))
   \<and> ensureSchemaName None = ''ResponseSchema''
   \<and> ((\<forall>c \<in> set s. is_whitespace c) \<longrightarrow> ensureSchemaName (Some s) = ''ResponseSchema'')
   \<and> (\<not> (\<forall>c \<in> set s. is_whitespace c) \<longrightarrow>
        ensureSchemaName (Some s) = trim s
        \<and> \<not> is_whitespace (hd (trim s)) \<and> \<not> is_whitespace (last (trim s))
        \<and> (\<exists>l r. s = l @ trim s @ r
              \<and> (\<forall>c \<in> set l. is_whitespace c) \<and> (\<forall>c \<in> set r. is_whitespace c)))
   \<and> ensureSchemaName (Some '' Foo '') = ''Foo''
   \<and> ensureSchemaName (Some ''   '') = ''ResponseSchema''
   \<and> ensureSchemaName (Some '''') = ''ResponseSchema''
   \<and> ensureSchemaName (Some [CHR 0xA0, CHR 0x09]) = ''ResponseSchema''
   \<and> ensureSchemaName (Some ([CHR 0xA0] @ ''Foo'' @ [CHR 0xA0])) = ''Foo''"
proof (intro conjI impI allI)
  assume z: "zodSchema p = Some z"
  show "\<And>doc. conv z = Inr doc \<Longrightarrow>
         \<exists>payload. buildPayload conv p = Inr payload \<and>
            get payload ''response_format'' =
              Obj [(''type'', Str ''json_schema''),
                   (''json_schema'',
                      Obj [(''name'', Str (ensureSchemaName (schemaName p))),
                           (''schema'', sanitizeSchemaForGrok doc)])]"
    using buildPayload_with_schema [OF z, of conv] by blast
  show "\<And>t. conv z = Inl t \<Longrightarrow>
         buildPayload conv p =
           Inl (Error (case t of
                         Thrown_Error d n m \<Rightarrow> ''Failed to convert schema: '' @ m
                       | Thrown_Value v \<Rightarrow> ''Failed to convert schema''))"
    using buildPayload_with_schema [OF z, of conv] by blast
  show "\<And>t. toJSONSchema rt z = Inl t \<Longrightarrow>
         fst (generate a rt p) =
           Inl (Error (case t of
                         Thrown_Error d n m \<Rightarrow> ''Failed to convert schema: '' @ m
                       | Thrown_Value v \<Rightarrow> ''Failed to convert schema''))"
    using generate_conversion_failure [OF z] by simp
  show "\<And>t r. toJSONSchema rt z = Inl t \<Longrightarrow> Fetch r \<notin> set (snd (generate a rt p))"
    using generate_conversion_failure [OF z, of rt _ a]
    by (auto simp: set_events_def clear_def split: option.splits)
next
  show "ensureSchemaName None = ''ResponseSchema''"
    using ensureSchemaName_cases by blast
  show "\<forall>c \<in> set s. is_whitespace c \<Longrightarrow> ensureSchemaName (Some s) = ''ResponseSchema''"
    using ensureSchemaName_cases [of s] by blast
  show "ensureSchemaName (Some '' Foo '') = ''Foo''"
    by (simp add: ensureSchemaName_def trim_def is_whitespace_def)
  show "ensureSchemaName (Some ''   '') = ''ResponseSchema''"
    by (simp add: ensureSchemaName_def trim_def is_whitespace_def)
  show "ensureSchemaName (Some '''') = ''ResponseSchema''"
    by (simp add: ensureSchemaName_def)
  show "ensureSchemaName (Some [CHR 0xA0, CHR 0x09]) = ''ResponseSchema''"
    by (simp add: ensureSchemaName_def trim_def is_whitespace_def)
  show "ensureSchemaName (Some ([CHR 0xA0] @ ''Foo'' @ [CHR 0xA0])) = ''Foo''"
    by (simp add: ensureSchemaName_def trim_def is_whitespace_def)
next
  assume n: "\<not> (\<forall>c \<in> set s. is_whitespace c)"
  then have ne: "trim s \<noteq> []" by (simp add: trim_empty_iff)
  show "ensureSchemaName (Some s) = trim s"
    using n ensureSchemaName_cases [of s] by blast
  show "\<not> is_whitespace (hd (trim s))" using trim_ends [OF ne] by simp
  show "\<not> is_whitespace (last (trim s))" using trim_ends [OF ne] by simp
  show "\<exists>l r. s = l @ trim s @ r
          \<and> (\<forall>c \<in> set l. is_whitespace c) \<and> (\<forall>c \<in> set r. is_whitespace c)"
    by (rule trim_decompose)
qed

theorem buildPayload_structured_output_witness:
  "(\<exists>payload.
      buildPayload (\<lambda>z::unit. Inr (Obj [(''type'', Str ''string''), (''maxLength'', Num 5)]))
        \<lparr> prompt = ''hi'', model = Undefined, temperature = Undefined, topP = Undefined,
          maxOutputTokens = Undefined, timeoutMs = None, zodSchema = Some (),
          schemaName = Some '' Foo '' \<rparr> = Inr payload
      \<and> get payload ''response_format'' =
          Obj [(''type'', Str ''json_schema''),
               (''json_schema'',
                  Obj [(''name'', Str ''Foo''), (''schema'', Obj [(''type'', Str ''string'')])])])
   \<and> buildPayload (\<lambda>z::unit. Inl (Thrown_Error False ''Error'' ''boom''))
        \<lparr> prompt = ''hi'', model = Undefined, temperature = Undefined, topP = Undefined,
          maxOutputTokens = Undefined, timeoutMs = None, zodSchema = Some (),
          schemaName = Some '' Foo '' \<rparr> = Inl (Error ''Failed to convert schema: boom'')
   \<and> fst (generate \<lparr> name = ''grok'', defaultModel = ''grok-4-1-fast-non-reasoning'',
                       apiKey = ''xai-123'', baseUrl = ''https://api.x.ai/v1'' \<rparr>
        \<lparr> toJSONSchema = (\<lambda>z::unit. Inl (Thrown_Error False ''Error'' ''boom'')),
          AbortController_defined = True, now_started = 0, now_received = 1,
          fetch = (\<lambda>r. Inl (Thrown_Value Null)), JSON_parse = (\<lambda>s. None),
          ToString = (\<lambda>v. Inr []) \<rparr>
        \<lparr> prompt = ''hi'', model = Undefined, temperature = Undefined, topP = Undefined,
          maxOutputTokens = Undefined, timeoutMs = None, zodSchema = Some (),
          schemaName = Some '' Foo '' \<rparr>) = Inl (Error ''Failed to convert schema: boom'')
   \<and> ensureSchemaName (Some [CHR 0x20, CHR 0xA0, CHR 0x09]) = ''ResponseSchema''
   \<and> ensureSchemaName (Some ''a b '') = ''a b''"
proof -
  let ?a = "\<lparr> name = ''grok'', defaultModel = ''grok-4-1-fast-non-reasoning'',
                       apiKey = ''xai-123'', baseUrl = ''https://api.x.ai/v1'' \<rparr>"
  let ?rt = "\<lparr> toJSONSchema = (\<lambda>z::unit. Inl (Thrown_Error False ''Error'' ''boom'')),
          AbortController_defined = True, now_started = 0, now_received = 1,
          fetch = (\<lambda>r. Inl (Thrown_Value Null)), JSON_parse = (\<lambda>s. None),
          ToString = (\<lambda>v. Inr []) \<rparr>"
  let ?p = "\<lparr> prompt = ''hi'', model = Undefined, temperature = Undefined, topP = Undefined,
          maxOutputTokens = Undefined, timeoutMs = None, zodSchema = Some (),
          schemaName = Some '' Foo '' \<rparr> :: unit ProviderGenerateParams"
  let ?ok = "\<lambda>z::unit. (Inr (Obj [(''type'', Str ''string''), (''maxLength'', Num 5)]) :: thrown + jsval)"
  let ?bad = "\<lambda>z::unit. (Inl (Thrown_Error False ''Error'' ''boom'') :: thrown + jsval)"
  have name: "ensureSchemaName (Some '' Foo '') = ''Foo''"
    by (simp add: ensureSchemaName_def trim_def is_whitespace_def)
  have t1: "trim ''a b '' = ''a b''" by (simp add: trim_def is_whitespace_def)
  have san: "sanitizeSchemaForGrok (Obj [(''type'', Str ''string''), (''maxLength'', Num 5)])
               = Obj [(''type'', Str ''string'')]"
    by (simp add: UNSUPPORTED_SCHEMA_PROPS_def set_property_def)
  have w1: "\<forall>c \<in> set [CHR 0x20, CHR 0xA0, CHR 0x09]. is_whitespace c" by (simp add: is_whitespace_def)
  have w2: "\<not> (\<forall>c \<in> set ''a b ''. is_whitespace c)" by (simp add: is_whitespace_def)
  show ?thesis
    using buildPayload_structured_output [of ?p "()" ?ok ?rt ?a "[CHR 0x20, CHR 0xA0, CHR 0x09]"]
          buildPayload_structured_output [of ?p "()" ?bad ?rt ?a "''a b ''"]
          w1 w2
    by (simp add: name t1 UNSUPPORTED_SCHEMA_PROPS_def set_property_def)
qed

section \<open>The sanitizer\<close>

text \<open>
  The loop of the sanitizer against the specification's sanitizer. On a value in which no
  object owns a name twice, \<^verbatim>\<open>sanitizeSchemaForGrok\<close> leaves out the banned names and
  the name \<^verbatim>\<open>__proto__\<close>, and keeps the rest.
\<close>


lemma sanitize_is_strip:
  "(wf_value v \<longrightarrow> sanitizeSchemaForGrok v = strip_keys dropped v)"
  "(wf_elements xs \<longrightarrow> sanitize_elements xs = strip_keys_elements dropped xs)"
  "(wf_entries es \<and> distinct (map fst result @ map fst es) \<longrightarrow>
      sanitize_entries es result = result @ strip_keys_entries dropped es)"
proof (induction v and xs and es result
       rule: sanitizeSchemaForGrok_sanitize_elements_sanitize_entries.induct)
  case (11 key val es result)
  show ?case
  proof (intro impI)
    assume a: "wf_entries ((key, val) # es) \<and> distinct (map fst result @ map fst ((key, val) # es))"
    then have wv: "wf_value val" and we: "wf_entries es"
      and fresh: "key \<notin> fst ` set result" and d: "distinct (map fst result @ map fst es)"
      and knes: "key \<notin> fst ` set es"
      by auto
    show "sanitize_entries ((key, val) # es) result
            = result @ strip_keys_entries dropped ((key, val) # es)"
    proof (cases "key \<in> set UNSUPPORTED_SCHEMA_PROPS")
      case True
      then have "dropped key" by (simp add: dropped_def banned_def)
      with 11(1) [OF True] we d True show ?thesis by simp
    next
      case False
      note nb = False
      show ?thesis
      proof (cases "key = ''__proto__''")
        case True
        then have dk: "dropped key" by (simp add: dropped_def)
        have "sanitize_entries es result = result @ strip_keys_entries dropped es"
          using 11(3) [OF nb] we d True by (simp add: set_property_def)
        then show ?thesis using nb True dk by (simp add: set_property_def)
      next
        case False
        with nb have dk: "\<not> dropped key" by (simp add: dropped_def banned_def)
        let ?r = "result @ [(key, strip_keys dropped val)]"
        have sv: "sanitizeSchemaForGrok val = strip_keys dropped val"
          using 11(2) [OF nb] wv by simp
        have sp: "set_property result key (sanitizeSchemaForGrok val) = ?r"
          using False fresh sv by (simp add: set_property_def assign_fresh)
        have "distinct (map fst ?r @ map fst es)" using d fresh knes by auto
        then have "sanitize_entries es ?r = ?r @ strip_keys_entries dropped es"
          using 11(3) [OF nb] we sp by simp
        then show ?thesis using nb dk sp by simp
      qed
    qed
  qed
qed (simp_all)


lemma sanitize_refines:
  "wf_value v \<Longrightarrow> sanitizeSchemaForGrok v = strip_keys dropped v"
  using sanitize_is_strip(1) by blast

lemma assign_keys: "fst ` set (assign es k v) = insert k (fst ` set es)"
proof (induction es)
  case Nil
  then show ?case by simp
next
  case (Cons e es)
  obtain k' v' where e: "e = (k', v')" by (cases e)
  from Cons e show ?case by (cases "k' = k") auto
qed

lemma assign_clean:
  "distinct (map fst es) \<Longrightarrow> wf_entries es \<Longrightarrow> \<not> key_occurs_entries P es
     \<Longrightarrow> wf_value v \<Longrightarrow> \<not> key_occurs P v \<Longrightarrow> \<not> P k
     \<Longrightarrow> distinct (map fst (assign es k v)) \<and> wf_entries (assign es k v)
         \<and> \<not> key_occurs_entries P (assign es k v)"
proof (induction es)
  case Nil
  then show ?case by simp
next
  case (Cons e es)
  obtain k' v' where e: "e = (k', v')" by (cases e)
  show ?case
  proof (cases "k' = k")
    case True
    with Cons.prems e show ?thesis by simp
  next
    case False
    have "k' \<notin> fst ` set (assign es k v)"
      using Cons.prems(1) e False by (simp add: assign_keys)
    with Cons e False show ?thesis by simp
  qed
qed

lemma sanitize_clean:
  "wf_value (sanitizeSchemaForGrok v) \<and> \<not> key_occurs dropped (sanitizeSchemaForGrok v)"
  "wf_elements (sanitize_elements xs) \<and> \<not> key_occurs_elements dropped (sanitize_elements xs)"
  "distinct (map fst result) \<and> wf_entries result \<and> \<not> key_occurs_entries dropped result
     \<longrightarrow> distinct (map fst (sanitize_entries es result))
         \<and> wf_entries (sanitize_entries es result)
         \<and> \<not> key_occurs_entries dropped (sanitize_entries es result)"
proof (induction v and xs and es result
       rule: sanitizeSchemaForGrok_sanitize_elements_sanitize_entries.induct)
  case (11 key val es result)
  show ?case
  proof (intro impI)
    assume a: "distinct (map fst result) \<and> wf_entries result
                 \<and> \<not> key_occurs_entries dropped result"
    show "distinct (map fst (sanitize_entries ((key, val) # es) result))
            \<and> wf_entries (sanitize_entries ((key, val) # es) result)
            \<and> \<not> key_occurs_entries dropped (sanitize_entries ((key, val) # es) result)"
    proof (cases "key \<in> set UNSUPPORTED_SCHEMA_PROPS")
      case True
      with 11(1) a show ?thesis by simp
    next
      case False
      note nb = False
      show ?thesis
      proof (cases "key = ''__proto__''")
        case True
        with 11(3) [OF nb] a nb show ?thesis by (simp add: set_property_def)
      next
        case False
        with nb have dk: "\<not> dropped key" by (simp add: dropped_def banned_def)
        have "distinct (map fst (assign result key (sanitizeSchemaForGrok val)))
                \<and> wf_entries (assign result key (sanitizeSchemaForGrok val))
                \<and> \<not> key_occurs_entries dropped (assign result key (sanitizeSchemaForGrok val))"
          using a 11(2) [OF nb] dk by (intro assign_clean) simp_all
        with 11(3) [OF nb] nb False show ?thesis by (simp add: set_property_def)
      qed
    qed
  qed
qed (simp_all)

lemma strip_keys_id:
  "\<not> key_occurs P v \<longrightarrow> strip_keys P v = v"
  "\<not> key_occurs_elements P xs \<longrightarrow> strip_keys_elements P xs = xs"
  "\<not> key_occurs_entries P es \<longrightarrow> strip_keys_entries P es = es"
  by (induction P v and P xs and P es
      rule: strip_keys_strip_keys_elements_strip_keys_entries.induct) simp_all

lemma key_occurs_mono:
  assumes "\<And>k. P k \<Longrightarrow> Q k"
  shows "key_occurs P v \<longrightarrow> key_occurs Q v"
    and "key_occurs_elements P xs \<longrightarrow> key_occurs_elements Q xs"
    and "key_occurs_entries P es \<longrightarrow> key_occurs_entries Q es"
  using assms
  by (induction P v and P xs and P es
      rule: key_occurs_key_occurs_elements_key_occurs_entries.induct) auto

lemma strip_keys_no_proto:
  "\<not> key_occurs (\<lambda>k. k = ''__proto__'') v \<longrightarrow> strip_keys dropped v = strip_keys banned v"
  "\<not> key_occurs_elements (\<lambda>k. k = ''__proto__'') xs
     \<longrightarrow> strip_keys_elements dropped xs = strip_keys_elements banned xs"
  "\<not> key_occurs_entries (\<lambda>k. k = ''__proto__'') es
     \<longrightarrow> strip_keys_entries dropped es = strip_keys_entries banned es"
  by (induction v and xs and es rule: wf_value_wf_elements_wf_entries.induct)
     (auto simp: dropped_def)

text \<open>
  C2. The sanitizer does not keep every property that is not banned: a property named
  \<^verbatim>\<open>__proto__\<close>, as \<^verbatim>\<open>JSON.parse\<close> makes one, is lost, because the assignment
  \<^verbatim>\<open>result[key] = ...\<close> with that key calls the prototype setter instead of adding a
  property. For the schema
  \<^verbatim>\<open>{"type":"object","properties":{"__proto__":{"type":"string","maxLength":5}}}\<close> the
  result is \<^verbatim>\<open>{"type":"object","properties":{}}\<close>, where removing the banned names alone
  gives \<^verbatim>\<open>{"type":"object","properties":{"__proto__":{"type":"string"}}}\<close>.
\<close>

theorem sanitize_loses_proto_property:
  "sanitizeSchemaForGrok
     (Obj [(''type'', Str ''object''),
           (''properties'',
              Obj [(''__proto__'', Obj [(''type'', Str ''string''), (''maxLength'', Num 5)])])])
     = Obj [(''type'', Str ''object''), (''properties'', Obj [])]
   \<and> strip_keys banned
     (Obj [(''type'', Str ''object''),
           (''properties'',
              Obj [(''__proto__'', Obj [(''type'', Str ''string''), (''maxLength'', Num 5)])])])
     = Obj [(''type'', Str ''object''),
            (''properties'', Obj [(''__proto__'', Obj [(''type'', Str ''string'')])])]"
  by (simp add: UNSUPPORTED_SCHEMA_PROPS_def set_property_def banned_def)

text \<open>
  What the sanitizer does guarantee. First: in its result no banned name (\<^verbatim>\<open>minLength\<close>,
  \<^verbatim>\<open>maxLength\<close>, \<^verbatim>\<open>minItems\<close>, \<^verbatim>\<open>maxItems\<close>, \<^verbatim>\<open>minContains\<close>, \<^verbatim>\<open>maxContains\<close>,
  \<^verbatim>\<open>$schema\<close>) is the name of a property, at any depth, inside arrays too.
\<close>

theorem sanitize_removes_banned: "\<not> key_occurs banned (sanitizeSchemaForGrok v)"
  using sanitize_clean(1) [of v] key_occurs_mono(1) [of banned dropped "sanitizeSchemaForGrok v"]
  by (auto simp: dropped_def)

text \<open>Second: sanitizing a sanitized value changes nothing.\<close>

theorem sanitize_idempotent:
  "sanitizeSchemaForGrok (sanitizeSchemaForGrok v) = sanitizeSchemaForGrok v"
  using sanitize_clean(1) [of v] sanitize_refines [of "sanitizeSchemaForGrok v"]
        strip_keys_id(1) [of dropped "sanitizeSchemaForGrok v"]
  by simp

text \<open>
  Third: on a value where no object owns the name \<^verbatim>\<open>__proto__\<close>, the result is the value
  with the banned names left out at every depth and every other property kept, with its
  value and in its place; a value that is neither an object nor an array is returned as it
  is.
\<close>

theorem sanitize_preserves_other_keys:
  "(wf_value v \<and> \<not> key_occurs (\<lambda>k. k = ''__proto__'') v
      \<longrightarrow> sanitizeSchemaForGrok v = strip_keys banned v)
   \<and> sanitizeSchemaForGrok Undefined = Undefined
   \<and> sanitizeSchemaForGrok Null = Null
   \<and> sanitizeSchemaForGrok (Bool b) = Bool b
   \<and> sanitizeSchemaForGrok (Num r) = Num r
   \<and> sanitizeSchemaForGrok (Str s) = Str s"
  using sanitize_refines [of v] strip_keys_no_proto(1) [of v] by simp

theorem sanitize_preserves_other_keys_witness:
  "sanitizeSchemaForGrok
     (Obj [(''$schema'', Str ''https://json-schema.org/draft/2020-12/schema''),
           (''type'', Str ''object''),
           (''properties'',
              Obj [(''tags'',
                      Obj [(''type'', Str ''array''), (''minItems'', Num 1),
                           (''items'', Obj [(''type'', Str ''string''), (''maxLength'', Num 5)])])]),
           (''anyOf'', Arr [Obj [(''minLength'', Num 2)], Bool True])])
   = Obj [(''type'', Str ''object''),
          (''properties'',
             Obj [(''tags'',
                     Obj [(''type'', Str ''array''),
                          (''items'', Obj [(''type'', Str ''string'')])])]),
          (''anyOf'', Arr [Obj [], Bool True])]"
  using sanitize_preserves_other_keys
    [of "Obj [(''$schema'', Str ''https://json-schema.org/draft/2020-12/schema''),
           (''type'', Str ''object''),
           (''properties'',
              Obj [(''tags'',
                      Obj [(''type'', Str ''array''), (''minItems'', Num 1),
                           (''items'', Obj [(''type'', Str ''string''), (''maxLength'', Num 5)])])]),
           (''anyOf'', Arr [Obj [(''minLength'', Num 2)], Bool True])]"]
  by (simp add: banned_def UNSUPPORTED_SCHEMA_PROPS_def)

section \<open>Text extraction\<close>

lemma scan_part_eq: "scan_part part = nonempty_part_text part"
proof (cases part)
  case (Obj es)
  then show ?thesis
    by (simp add: scan_part_def nonempty_part_text_def opt_get_def
             split: jsval.splits option.splits)
qed (simp_all add: scan_part_def nonempty_part_text_def opt_get_def)

lemma scan_parts_eq: "scan_parts parts = first_match nonempty_part_text parts"
  by (induction parts) (auto simp: first_match_def scan_part_eq split: option.splits)

lemma first_match_append:
  "(\<forall>q \<in> set pre. f q = None) \<Longrightarrow> f p = Some s \<Longrightarrow> first_match f (pre @ p # rest) = Some s"
  by (induction pre) (auto simp: first_match_def)

lemma get_falsy: "\<not> truthy v \<Longrightarrow> opt_get v k = Undefined"
  by (cases v) (simp_all add: opt_get_def)

lemma opt_get_truthy: "truthy v \<Longrightarrow> opt_get v k = get v k"
  by (cases v) (simp_all add: opt_get_def)

lemma message_get:
  assumes "truthy choice"
  shows "get (nullish_or (nullish_or (get choice ''message'') (get choice ''delta'')) (Obj [])) k
           = opt_get (coalesce [opt_get choice ''message'', opt_get choice ''delta'']) k"
proof (cases "nullish (get choice ''message'')")
  case True
  note m = True
  show ?thesis
  proof (cases "nullish (get choice ''delta'')")
    case True
    with m assms show ?thesis by (simp add: nullish_or_def opt_get_truthy) (simp add: opt_get_def)
  next
    case False
    with m assms show ?thesis by (simp add: nullish_or_def opt_get_truthy) (simp add: opt_get_def)
  qed
next
  case False
  with assms show ?thesis by (simp add: nullish_or_def opt_get_truthy) (simp add: opt_get_def)
qed

lemma extractTextFromChoice_refines: "extractTextFromChoice choice = spec_extractText nonempty_part_text choice"
proof (cases "truthy choice")
  case False
  then show ?thesis
    by (simp add: extractTextFromChoice_def spec_extractText_def get_falsy)
next
  case True
  let ?m = "coalesce [opt_get choice ''message'', opt_get choice ''delta'']"
  have "extractTextFromChoice choice =
          (case opt_get ?m ''content'' of
             Str s \<Rightarrow> s
           | _ \<Rightarrow>
             (case (case opt_get ?m ''content'' of Arr parts \<Rightarrow> scan_parts parts | _ \<Rightarrow> None) of
                Some s \<Rightarrow> s
              | None \<Rightarrow> (case opt_get ?m ''text'' of Str s \<Rightarrow> s | _ \<Rightarrow> '''')))"
    using True unfolding extractTextFromChoice_def Let_def message_get [OF True] by simp
  also have "\<dots> = spec_extractText nonempty_part_text choice"
    unfolding spec_extractText_def Let_def scan_parts_eq
    by (cases "opt_get ?m ''content''") simp_all
  finally show ?thesis .
qed

text \<open>
  C6, as the specification has it, fails: a part that is the empty string is a string, so
  the specification's scan stops there and returns it, but the adapter's loop skips every
  falsy part (\<^verbatim>\<open>if (!part) continue\<close>) and goes on. For
  \<^verbatim>\<open>{message: {content: ["", "x"]}}\<close> the adapter returns \<^verbatim>\<open>"x"\<close>, the
  specification's extraction the empty string.
\<close>

theorem extractTextFromChoice_skips_empty_string_part:
  "extractTextFromChoice (Obj [(''message'', Obj [(''content'', Arr [Str '''', Str ''x''])])])
     = ''x''
   \<and> spec_extractText claimed_part_text
       (Obj [(''message'', Obj [(''content'', Arr [Str '''', Str ''x''])])]) = ''''"
  by (simp add: extractTextFromChoice_def spec_extractText_def Let_def scan_part_def
                nullish_or_def opt_get_def claimed_part_text_def first_match_def)

text \<open>
  C6, amended. \<^verbatim>\<open>extractTextFromChoice\<close> applies three strategies in order to the
  message of the choice (its \<^verbatim>\<open>message\<close>, or its \<^verbatim>\<open>delta\<close> when there is no message):
  a \<^verbatim>\<open>content\<close> that is a string is returned; else, when \<^verbatim>\<open>content\<close> is a list, the
  parts are scanned in order and the first part that is itself a non-empty string, or
  carries a string under \<^verbatim>\<open>text\<close>, \<^verbatim>\<open>output_text\<close> or \<^verbatim>\<open>data\<close> (looked up in that
  order), gives the result, whatever parts come after it; else a string \<^verbatim>\<open>text\<close> of the
  message is returned; else the empty string. So \<^verbatim>\<open>{message: {content: "hello"}}\<close> gives
  \<^verbatim>\<open>"hello"\<close>, \<^verbatim>\<open>{message: {content: [{type: "x"}, {text: "hi"}]}}\<close> gives \<^verbatim>\<open>"hi"\<close>
  and \<^verbatim>\<open>{message: {content: []}}\<close> gives the empty string.
\<close>

theorem extractTextFromChoice_strategies:
  "extractTextFromChoice choice = spec_extractText nonempty_part_text choice
   \<and> ((\<forall>q \<in> set pre. nonempty_part_text q = None) \<and> nonempty_part_text part = Some s \<longrightarrow>
        extractTextFromChoice
          (Obj [(''message'', Obj [(''content'', Arr (pre @ part # rest))])]) = s)
   \<and> extractTextFromChoice (Obj [(''message'', Obj [(''content'', Str ''hello'')])]) = ''hello''
   \<and> extractTextFromChoice
        (Obj [(''message'',
               Obj [(''content'', Arr [Obj [(''type'', Str ''x'')], Obj [(''text'', Str ''hi'')]])])])
       = ''hi''
   \<and> extractTextFromChoice (Obj [(''message'', Obj [(''content'', Arr [])])]) = ''''"
proof (intro conjI impI)
  show "extractTextFromChoice choice = spec_extractText nonempty_part_text choice"
    by (rule extractTextFromChoice_refines)
  show "extractTextFromChoice
          (Obj [(''message'', Obj [(''content'', Arr (pre @ part # rest))])]) = s"
    if "(\<forall>q \<in> set pre. nonempty_part_text q = None) \<and> nonempty_part_text part = Some s"
  proof -
    from that have "first_match nonempty_part_text (pre @ part # rest) = Some s"
      by (simp add: first_match_append)
    then show ?thesis
      unfolding extractTextFromChoice_refines
      by (simp add: spec_extractText_def opt_get_def)
  qed
  show "extractTextFromChoice (Obj [(''message'', Obj [(''content'', Str ''hello'')])]) = ''hello''"
    by (simp add: extractTextFromChoice_def nullish_or_def)
  show "extractTextFromChoice
        (Obj [(''message'',
               Obj [(''content'', Arr [Obj [(''type'', Str ''x'')], Obj [(''text'', Str ''hi'')]])])])
       = ''hi''"
    by (simp add: extractTextFromChoice_def nullish_or_def scan_part_def)
  show "extractTextFromChoice (Obj [(''message'', Obj [(''content'', Arr [])])]) = ''''"
    by (simp add: extractTextFromChoice_def nullish_or_def)
qed

theorem extractTextFromChoice_strategies_witness:
  "extractTextFromChoice
     (Obj [(''message'',
            Obj [(''content'',
                  Arr [Str '''', Null, Obj [(''type'', Str ''image'')],
                       Obj [(''output_text'', Str ''a''), (''data'', Str ''d'')],
                       Str ''b''])])]) = ''a''"
proof -
  have pre: "\<forall>q \<in> set [Str '''', Null, Obj [(''type'', Str ''image'')]].
               nonempty_part_text q = None"
    by (simp add: nonempty_part_text_def opt_get_def)
  have part: "nonempty_part_text (Obj [(''output_text'', Str ''a''), (''data'', Str ''d'')])
                = Some ''a''"
    by (simp add: nonempty_part_text_def opt_get_def)
  show ?thesis
    using pre part
      extractTextFromChoice_strategies
        [of Null "[Str '''', Null, Obj [(''type'', Str ''image'')]]"
            "Obj [(''output_text'', Str ''a''), (''data'', Str ''d'')]" "''a''" "[Str ''b'']"]
    by simp
qed

section \<open>Usage accounting\<close>

lemma coalesce4:
  "nullish_or (nullish_or (nullish_or a b) c) d = coalesce [a, b, c, d]"
  by (simp add: nullish_or_def)

lemma coalesce3: "nullish_or (nullish_or a b) c = coalesce [a, b, c]"
  by (simp add: nullish_or_def)

lemma sum_tokens:
  "(if is_number p \<and> is_number c then add_numbers p c else Undefined)
     = (case (p, c) of (Num a, Num b) \<Rightarrow> Num (a + b) | _ \<Rightarrow> Undefined)"
  by (cases p; cases c) simp_all

text \<open>
  C5. \<^verbatim>\<open>normalizeUsage\<close> does not always attach a latency that is supplied. Without raw
  usage it tests the latency for truthiness (\<^verbatim>\<open>latencyMs ? { latencyMs } : undefined\<close>), so
  a latency of 0 milliseconds, which the two readings of the clock in \<^verbatim>\<open>generate\<close> give
  when they are equal, yields \<^verbatim>\<open>undefined\<close> and not a record carrying the latency; with
  raw usage present the same latency is attached.
\<close>

theorem normalizeUsage_drops_zero_latency:
  "normalizeUsage Undefined (Num 0) = Undefined
   \<and> normalizeUsage (Obj []) (Num 0) =
       Obj [(''promptTokens'', Undefined), (''completionTokens'', Undefined),
            (''totalTokens'', Undefined), (''latencyMs'', Num 0)]"
  by (simp add: normalizeUsage_def nullish_or_def)

text \<open>
  What \<^verbatim>\<open>normalizeUsage\<close> does otherwise. With raw usage (a truthy value) the result has
  the four fields: the prompt tokens are the first of \<^verbatim>\<open>prompt_tokens\<close>,
  \<^verbatim>\<open>promptTokens\<close>, \<^verbatim>\<open>input_tokens\<close>, \<^verbatim>\<open>inputTokens\<close> that is neither \<^verbatim>\<open>null\<close> nor
  \<^verbatim>\<open>undefined\<close>, the completion tokens likewise from \<^verbatim>\<open>completion_tokens\<close>,
  \<^verbatim>\<open>completionTokens\<close>, \<^verbatim>\<open>output_tokens\<close>, \<^verbatim>\<open>outputTokens\<close>; the total is
  \<^verbatim>\<open>total_tokens\<close> or \<^verbatim>\<open>totalTokens\<close> when given, else the sum of the two counts when
  both are numbers, else \<^verbatim>\<open>undefined\<close>; the latency is attached as given. Without raw usage
  the result is the record of the latency alone when the latency is truthy, and
  \<^verbatim>\<open>undefined\<close> when it is not.
\<close>

theorem normalizeUsage_fields:
  "(truthy raw \<longrightarrow>
      own_keys (normalizeUsage raw lat)
        = [''promptTokens'', ''completionTokens'', ''totalTokens'', ''latencyMs'']
    \<and> get (normalizeUsage raw lat) ''promptTokens''
        = coalesce [get raw ''prompt_tokens'', get raw ''promptTokens'',
                    get raw ''input_tokens'', get raw ''inputTokens'']
    \<and> get (normalizeUsage raw lat) ''completionTokens''
        = coalesce [get raw ''completion_tokens'', get raw ''completionTokens'',
                    get raw ''output_tokens'', get raw ''outputTokens'']
    \<and> get (normalizeUsage raw lat) ''totalTokens''
        = coalesce [get raw ''total_tokens'', get raw ''totalTokens'',
             (case (get (normalizeUsage raw lat) ''promptTokens'',
                    get (normalizeUsage raw lat) ''completionTokens'') of
                (Num a, Num b) \<Rightarrow> Num (a + b)
              | _ \<Rightarrow> Undefined)]
    \<and> get (normalizeUsage raw lat) ''latencyMs'' = lat)
   \<and> (\<not> truthy raw \<and> truthy lat \<longrightarrow> normalizeUsage raw lat = Obj [(''latencyMs'', lat)])
   \<and> (\<not> truthy raw \<and> \<not> truthy lat \<longrightarrow> normalizeUsage raw lat = Undefined)
   \<and> normalizeUsage (Obj [(''prompt_tokens'', Num 10), (''completion_tokens'', Num 5)]) (Num 42)
       = Obj [(''promptTokens'', Num 10), (''completionTokens'', Num 5),
              (''totalTokens'', Num 15), (''latencyMs'', Num 42)]
   \<and> normalizeUsage (Obj [(''total_tokens'', Num 99), (''prompt_tokens'', Num 10),
                           (''completion_tokens'', Num 5)]) (Num 42)
       = Obj [(''promptTokens'', Num 10), (''completionTokens'', Num 5),
              (''totalTokens'', Num 99), (''latencyMs'', Num 42)]"
proof (intro conjI impI)
  assume t: "truthy raw"
  have eq: "normalizeUsage raw lat =
     Obj [(''promptTokens'', coalesce [get raw ''prompt_tokens'', get raw ''promptTokens'',
                    get raw ''input_tokens'', get raw ''inputTokens'']),
          (''completionTokens'', coalesce [get raw ''completion_tokens'', get raw ''completionTokens'',
                    get raw ''output_tokens'', get raw ''outputTokens'']),
          (''totalTokens'', coalesce [get raw ''total_tokens'', get raw ''totalTokens'',
             (case (coalesce [get raw ''prompt_tokens'', get raw ''promptTokens'',
                    get raw ''input_tokens'', get raw ''inputTokens''],
                    coalesce [get raw ''completion_tokens'', get raw ''completionTokens'',
                    get raw ''output_tokens'', get raw ''outputTokens'']) of
                (Num a, Num b) \<Rightarrow> Num (a + b)
              | _ \<Rightarrow> Undefined)]),
          (''latencyMs'', lat)]"
    apply (simp only: normalizeUsage_def Let_def t not_True_eq_False if_False)
    apply (simp only: coalesce4)
    apply (simp only: coalesce3 sum_tokens)
    done
  show "own_keys (normalizeUsage raw lat)
        = [''promptTokens'', ''completionTokens'', ''totalTokens'', ''latencyMs'']"
    unfolding eq by simp
  show p: "get (normalizeUsage raw lat) ''promptTokens''
        = coalesce [get raw ''prompt_tokens'', get raw ''promptTokens'',
                    get raw ''input_tokens'', get raw ''inputTokens'']"
    unfolding eq by simp
  show c: "get (normalizeUsage raw lat) ''completionTokens''
        = coalesce [get raw ''completion_tokens'', get raw ''completionTokens'',
                    get raw ''output_tokens'', get raw ''outputTokens'']"
    unfolding eq by simp
  show "get (normalizeUsage raw lat) ''totalTokens''
        = coalesce [get raw ''total_tokens'', get raw ''totalTokens'',
             (case (get (normalizeUsage raw lat) ''promptTokens'',
                    get (normalizeUsage raw lat) ''completionTokens'') of
                (Num a, Num b) \<Rightarrow> Num (a + b)
              | _ \<Rightarrow> Undefined)]"
    unfolding p c unfolding eq by simp
  show "get (normalizeUsage raw lat) ''latencyMs'' = lat"
    unfolding eq by simp
next
  show "normalizeUsage raw lat = Obj [(''latencyMs'', lat)]" if "\<not> truthy raw \<and> truthy lat"
    using that by (simp add: normalizeUsage_def)
  show "normalizeUsage raw lat = Undefined" if "\<not> truthy raw \<and> \<not> truthy lat"
    using that by (simp add: normalizeUsage_def)
  show "normalizeUsage (Obj [(''prompt_tokens'', Num 10), (''completion_tokens'', Num 5)]) (Num 42)
       = Obj [(''promptTokens'', Num 10), (''completionTokens'', Num 5),
              (''totalTokens'', Num 15), (''latencyMs'', Num 42)]"
    by (simp add: normalizeUsage_def nullish_or_def)
  show "normalizeUsage (Obj [(''total_tokens'', Num 99), (''prompt_tokens'', Num 10),
                           (''completion_tokens'', Num 5)]) (Num 42)
       = Obj [(''promptTokens'', Num 10), (''completionTokens'', Num 5),
              (''totalTokens'', Num 99), (''latencyMs'', Num 42)]"
    by (simp add: normalizeUsage_def nullish_or_def)
qed

theorem normalizeUsage_fields_witness:
  "get (normalizeUsage (Obj [(''input_tokens'', Num 7), (''outputTokens'', Num 3)]) (Num 0))
       ''totalTokens'' = Num 10
   \<and> get (normalizeUsage (Obj [(''input_tokens'', Num 7), (''outputTokens'', Num 3)]) (Num 0))
       ''latencyMs'' = Num 0
   \<and> normalizeUsage Null (Num 12) = Obj [(''latencyMs'', Num 12)]
   \<and> normalizeUsage Null Undefined = Undefined"
  using normalizeUsage_fields [of "Obj [(''input_tokens'', Num 7), (''outputTokens'', Num 3)]" "Num 0"]
        normalizeUsage_fields [of Null "Num 12"]
        normalizeUsage_fields [of Null Undefined]
  by simp

section \<open>The call\<close>

lemma first_choice_Cons:
  "get parsed ''choices'' = Arr (c # cs) \<Longrightarrow> first_choice parsed = c"
  by (cases parsed) (simp_all add: first_choice_def opt_get_def)

text \<open>
  C1. When the payload is built, \<^verbatim>\<open>fetch\<close> answers with a success status, the body is
  read, is not empty and parses to a value whose \<^verbatim>\<open>choices\<close> is a list with first element
  \<open>c\<close> (whatever choices \<open>cs\<close> follow it), and the text extracted from \<open>c\<close> is not empty,
  \<^verbatim>\<open>generate\<close> resolves with: the text extracted from \<open>c\<close> as \<^verbatim>\<open>content\<close>, the parsed
  body as \<^verbatim>\<open>rawResponse\<close>, \<^verbatim>\<open>grok\<close> (the name of an adapter that \<^verbatim>\<open>createGrokAdapter\<close>
  made) as \<^verbatim>\<open>provider\<close>, as \<^verbatim>\<open>model\<close> the model that the body reports or, when it reports
  none, the model of the payload (the one given in the parameters, or else the default
  one), and the normalized usage. For the body
  \<^verbatim>\<open>{"model":"m1","choices":[{"message":{"content":"4"}}]}\<close> and the prompt \<^verbatim>\<open>2+2?\<close> the
  content is \<^verbatim>\<open>4\<close>, the model \<^verbatim>\<open>m1\<close> and the provider \<^verbatim>\<open>grok\<close>; for a body with the two
  choices \<^verbatim>\<open>first\<close> and \<^verbatim>\<open>second\<close> and no model, the content is \<^verbatim>\<open>first\<close> and the model
  the default one.
\<close>

theorem generate_success:
  "(buildPayload (toJSONSchema rt) p = Inr payload
      \<and> fetch rt (build_request a payload
            (buildAbortController (AbortController_defined rt) (timeoutMs p))) = Inr resp
      \<and> ok resp \<and> body_text resp = Inr txt \<and> txt \<noteq> [] \<and> JSON_parse rt txt = Some parsed
      \<and> get parsed ''choices'' = Arr (c # cs)
      \<and> extractTextFromChoice c \<noteq> []
    \<longrightarrow> (\<exists>r. fst (generate a rt p) = Inr r
          \<and> content r = extractTextFromChoice c
          \<and> rawResponse r = parsed
          \<and> provider r = ''grok''
          \<and> (\<forall>env. createGrokAdapter env = Inr a \<longrightarrow> provider r = name a)
          \<and> result_model r =
               (if \<not> nullish (opt_get parsed ''model'') then opt_get parsed ''model''
                else if \<not> nullish (model p) then model p
                else Str ''grok-4-1-fast-non-reasoning'')
          \<and> usage r = normalizeUsage (opt_get parsed ''usage'')
                         (Num (of_int (now_received rt - now_started rt)))))
   \<and> (\<exists>r. fst (generate example_adapter
                  (mock_backend \<lparr> ok = True, statusText = ''OK'', body_text = Inr success_body \<rparr>
                     success_parsed)
                  (prompt_only ''2+2?'')) = Inr r
         \<and> content r = ''4'' \<and> result_model r = Str ''m1'' \<and> provider r = name example_adapter)
   \<and> (\<exists>r. fst (generate example_adapter
                  (mock_backend \<lparr> ok = True, statusText = ''OK'', body_text = Inr success_body \<rparr>
                     (Obj [(''choices'',
                            Arr [Obj [(''message'', Obj [(''content'', Str ''first'')])],
                                 Obj [(''message'', Obj [(''content'', Str ''second'')])]])]))
                  (prompt_only ''2+2?'')) = Inr r
         \<and> content r = ''first'' \<and> result_model r = Str ''grok-4-1-fast-non-reasoning'')"
proof (intro conjI impI)
  assume h: "buildPayload (toJSONSchema rt) p = Inr payload
      \<and> fetch rt (build_request a payload
            (buildAbortController (AbortController_defined rt) (timeoutMs p))) = Inr resp
      \<and> ok resp \<and> body_text resp = Inr txt \<and> txt \<noteq> [] \<and> JSON_parse rt txt = Some parsed
      \<and> get parsed ''choices'' = Arr (c # cs)
      \<and> extractTextFromChoice c \<noteq> []"
  let ?r = "\<lparr> content = extractTextFromChoice (first_choice parsed),
               rawResponse = parsed, provider = PROVIDER_NAME,
               result_model = nullish_or (opt_get parsed ''model'') (get payload ''model''),
               usage = normalizeUsage (opt_get parsed ''usage'')
                         (Num (of_int (now_received rt - now_started rt))) \<rparr>"
  from h have built: "buildPayload (toJSONSchema rt) p = Inr payload" by simp
  from h have fc: "first_choice parsed = c" by (simp add: first_choice_Cons)
  have hb: "handle_body rt payload resp txt = Inr ?r"
    using h fc by (intro handle_body_success) simp_all
  have g: "fst (generate a rt p) = Inr ?r"
    using h hb by (simp add: generate_built [OF built refl])
  have m: "get payload ''model'' = (if nullish (model p) then Str DEFAULT_MODEL else model p)"
    by (rule buildPayload_fields(2) [OF built])
  have n: "\<And>env. createGrokAdapter env = Inr a \<Longrightarrow> name a = PROVIDER_NAME"
    by (auto simp: createGrokAdapter_def split: option.splits if_splits)
  show "\<exists>r. fst (generate a rt p) = Inr r
          \<and> content r = extractTextFromChoice c
          \<and> rawResponse r = parsed
          \<and> provider r = ''grok''
          \<and> (\<forall>env. createGrokAdapter env = Inr a \<longrightarrow> provider r = name a)
          \<and> result_model r =
               (if \<not> nullish (opt_get parsed ''model'') then opt_get parsed ''model''
                else if \<not> nullish (model p) then model p
                else Str ''grok-4-1-fast-non-reasoning'')
          \<and> usage r = normalizeUsage (opt_get parsed ''usage'')
                         (Num (of_int (now_received rt - now_started rt)))"
    using g m n fc by (auto simp: nullish_or_def PROVIDER_NAME_def DEFAULT_MODEL_def)
next
  let ?rt = "mock_backend \<lparr> ok = True, statusText = ''OK'', body_text = Inr success_body \<rparr>
               success_parsed"
  have built: "buildPayload (toJSONSchema ?rt) (prompt_only ''2+2?'')
                 = Inr (Obj [(''model'', Str DEFAULT_MODEL),
                             (''messages'',
                                Arr [Obj [(''role'', Str ''user''), (''content'', Str ''2+2?'')]])])"
    unfolding buildPayload_closed
    by (simp add: prompt_only_def sampling_entry_def nullish_or_def)
  have ex: "extractTextFromChoice (first_choice success_parsed) = ''4''"
    by (simp add: success_parsed_def first_choice_def opt_get_def extractTextFromChoice_def
                  nullish_or_def)
  have ne: "success_body \<noteq> []" by (simp add: success_body_def)
  have hb: "handle_body ?rt
              (Obj [(''model'', Str DEFAULT_MODEL),
                    (''messages'',
                       Arr [Obj [(''role'', Str ''user''), (''content'', Str ''2+2?'')]])])
              \<lparr> ok = True, statusText = ''OK'', body_text = Inr success_body \<rparr> success_body
            = Inr \<lparr> content = ''4'', rawResponse = success_parsed, provider = PROVIDER_NAME,
                    result_model = Str ''m1'',
                    usage = normalizeUsage Undefined (Num 42) \<rparr>"
    using ne ex
    by (simp add: handle_body_def mock_backend_def Let_def)
       (simp add: success_parsed_def opt_get_def nullish_or_def)
  show "\<exists>r. fst (generate example_adapter ?rt (prompt_only ''2+2?'')) = Inr r
         \<and> content r = ''4'' \<and> result_model r = Str ''m1'' \<and> provider r = name example_adapter"
    using hb
    by (simp add: generate_built [OF built refl])
       (simp add: mock_backend_def example_adapter_def PROVIDER_NAME_def)
next
  let ?parsed = "Obj [(''choices'',
                       Arr [Obj [(''message'', Obj [(''content'', Str ''first'')])],
                            Obj [(''message'', Obj [(''content'', Str ''second'')])]])]"
  let ?rt = "mock_backend \<lparr> ok = True, statusText = ''OK'', body_text = Inr success_body \<rparr>
               ?parsed"
  have built: "buildPayload (toJSONSchema ?rt) (prompt_only ''2+2?'')
                 = Inr (Obj [(''model'', Str DEFAULT_MODEL),
                             (''messages'',
                                Arr [Obj [(''role'', Str ''user''), (''content'', Str ''2+2?'')]])])"
    unfolding buildPayload_closed
    by (simp add: prompt_only_def sampling_entry_def nullish_or_def)
  have ex: "extractTextFromChoice (first_choice ?parsed) = ''first''"
    by (simp add: first_choice_def opt_get_def extractTextFromChoice_def nullish_or_def)
  have ne: "success_body \<noteq> []" by (simp add: success_body_def)
  have hb: "handle_body ?rt
              (Obj [(''model'', Str DEFAULT_MODEL),
                    (''messages'',
                       Arr [Obj [(''role'', Str ''user''), (''content'', Str ''2+2?'')]])])
              \<lparr> ok = True, statusText = ''OK'', body_text = Inr success_body \<rparr> success_body
            = Inr \<lparr> content = ''first'', rawResponse = ?parsed, provider = PROVIDER_NAME,
                    result_model = Str DEFAULT_MODEL,
                    usage = normalizeUsage Undefined (Num 42) \<rparr>"
    using ne ex
    by (simp add: handle_body_def mock_backend_def Let_def)
       (simp add: opt_get_def nullish_or_def)
  show "\<exists>r. fst (generate example_adapter ?rt (prompt_only ''2+2?'')) = Inr r
         \<and> content r = ''first'' \<and> result_model r = Str ''grok-4-1-fast-non-reasoning''"
    using hb
    by (simp add: generate_built [OF built refl])
       (simp add: mock_backend_def DEFAULT_MODEL_def)
qed

theorem generate_success_witness:
  "\<exists>r. fst (generate example_adapter
              (mock_backend \<lparr> ok = True, statusText = ''OK'', body_text = Inr success_body \<rparr>
                 (Obj [(''choices'',
                        Arr [Obj [(''delta'', Obj [(''text'', Str ''four'')])],
                             Obj [(''message'', Obj [(''content'', Str ''five'')])],
                             Null]),
                       (''usage'', Obj [(''input_tokens'', Num 3), (''output_tokens'', Num 1)])]))
              ((prompt_only ''2+2?'') \<lparr> model := Str ''grok-3'' \<rparr>)) = Inr r
      \<and> content r = ''four''
      \<and> result_model r = Str ''grok-3''
      \<and> provider r = ''grok''
      \<and> provider r = name example_adapter
      \<and> createGrokAdapter \<lparr> XAI_API_KEY = Some ''xai-123'', XAI_API_BASE_URL = None \<rparr>
            = Inr example_adapter
      \<and> get (usage r) ''totalTokens'' = Num 4
      \<and> get (usage r) ''latencyMs'' = Num 42"
proof -
  have made: "createGrokAdapter \<lparr> XAI_API_KEY = Some ''xai-123'', XAI_API_BASE_URL = None \<rparr>
                = Inr example_adapter"
    by (simp add: createGrokAdapter_def example_adapter_def PROVIDER_NAME_def DEFAULT_MODEL_def)
  let ?resp = "\<lparr> ok = True, statusText = ''OK'', body_text = Inr success_body \<rparr>"
  let ?c = "Obj [(''delta'', Obj [(''text'', Str ''four'')])]"
  let ?cs = "[Obj [(''message'', Obj [(''content'', Str ''five'')])], Null]"
  let ?parsed = "Obj [(''choices'', Arr (?c # ?cs)),
                      (''usage'', Obj [(''input_tokens'', Num 3), (''output_tokens'', Num 1)])]"
  let ?rt = "mock_backend ?resp ?parsed"
  let ?p = "(prompt_only ''2+2?'') \<lparr> model := Str ''grok-3'' \<rparr>"
  let ?payload = "Obj [(''model'', Str ''grok-3''),
                       (''messages'',
                          Arr [Obj [(''role'', Str ''user''), (''content'', Str ''2+2?'')]])]"
  have built: "buildPayload (toJSONSchema ?rt) ?p = Inr ?payload"
    unfolding buildPayload_closed
    by (simp add: prompt_only_def sampling_entry_def nullish_or_def)
  have fetched: "fetch ?rt (build_request example_adapter ?payload
            (buildAbortController (AbortController_defined ?rt) (timeoutMs ?p))) = Inr ?resp"
    by (simp add: mock_backend_def)
  have ne: "success_body \<noteq> []" by (simp add: success_body_def)
  have parsed: "JSON_parse ?rt success_body = Some ?parsed" by (simp add: mock_backend_def)
  have ch: "get ?parsed ''choices'' = Arr (?c # ?cs)" by simp
  have ex: "extractTextFromChoice ?c = ''four''"
    by (simp add: extractTextFromChoice_def nullish_or_def)
  have u: "normalizeUsage (opt_get ?parsed ''usage'') (Num 42)
             = Obj [(''promptTokens'', Num 3), (''completionTokens'', Num 1),
                    (''totalTokens'', Num 4), (''latencyMs'', Num 42)]"
    by (simp add: normalizeUsage_def opt_get_def nullish_or_def)
  have t: "now_received ?rt - now_started ?rt = 42" by (simp add: mock_backend_def)
  have m: "model ?p = Str ''grok-3''" by (simp add: prompt_only_def)
  have H: "buildPayload (toJSONSchema ?rt) ?p = Inr ?payload
      \<and> fetch ?rt (build_request example_adapter ?payload
            (buildAbortController (AbortController_defined ?rt) (timeoutMs ?p))) = Inr ?resp
      \<and> ok ?resp \<and> body_text ?resp = Inr success_body \<and> success_body \<noteq> []
      \<and> JSON_parse ?rt success_body = Some ?parsed
      \<and> get ?parsed ''choices'' = Arr (?c # ?cs)
      \<and> extractTextFromChoice ?c \<noteq> []"
    using built fetched ne parsed ch ex by simp
  have "\<exists>r. fst (generate example_adapter ?rt ?p) = Inr r
          \<and> content r = extractTextFromChoice ?c
          \<and> rawResponse r = ?parsed
          \<and> provider r = ''grok''
          \<and> (\<forall>env. createGrokAdapter env = Inr example_adapter
                \<longrightarrow> provider r = name example_adapter)
          \<and> result_model r =
               (if \<not> nullish (opt_get ?parsed ''model'') then opt_get ?parsed ''model''
                else if \<not> nullish (model ?p) then model ?p
                else Str ''grok-4-1-fast-non-reasoning'')
          \<and> usage r = normalizeUsage (opt_get ?parsed ''usage'')
                         (Num (of_int (now_received ?rt - now_started ?rt)))"
    using generate_success
            [of ?rt ?p ?payload example_adapter ?resp success_body ?parsed ?c ?cs]
          H
    by blast
  then obtain r where r: "fst (generate example_adapter ?rt ?p) = Inr r"
      "content r = extractTextFromChoice ?c" "provider r = ''grok''"
      "\<forall>env. createGrokAdapter env = Inr example_adapter
          \<longrightarrow> provider r = name example_adapter"
      "result_model r =
               (if \<not> nullish (opt_get ?parsed ''model'') then opt_get ?parsed ''model''
                else if \<not> nullish (model ?p) then model ?p
                else Str ''grok-4-1-fast-non-reasoning'')"
      "usage r = normalizeUsage (opt_get ?parsed ''usage'')
                         (Num (of_int (now_received ?rt - now_started ?rt)))"
    by blast
  have rm: "result_model r = Str ''grok-3''" using r(5) m by (simp add: opt_get_def)
  have ru: "usage r = Obj [(''promptTokens'', Num 3), (''completionTokens'', Num 1),
                    (''totalTokens'', Num 4), (''latencyMs'', Num 42)]"
    using r(6) u t by simp
  have rn: "provider r = name example_adapter" using r(4) made by blast
  show ?thesis
    using r(1) r(2) r(3) ex rm ru rn made
    by (intro exI [of _ r]) simp
qed

text \<open>
  C7, as the specification has it, fails: the adapter has no error with a code. For the
  status 429 with the body \<^verbatim>\<open>{"error":{"code":"rate_limited","message":"slow down"}}\<close>,
  \<^verbatim>\<open>generate\<close> rejects with \<^verbatim>\<open>new Error("Grok API error (rate_limited): slow down")\<close>:
  the code is part of the message, and the \<^verbatim>\<open>code\<close> of the error is \<^verbatim>\<open>undefined\<close>, not
  \<^verbatim>\<open>rate_limited\<close>.
\<close>

theorem generate_upstream_error_has_no_code:
  "fst (generate example_adapter
          (mock_backend
             \<lparr> ok = False, statusText = ''Too Many Requests'', body_text = Inr rate_limit_body \<rparr>
             rate_limit_parsed)
          (prompt_only ''2+2?''))
     = Inl (Error ''Grok API error (rate_limited): slow down'')
   \<and> get (Obj (new_Error_properties ''Grok API error (rate_limited): slow down'')) ''code''
       = Undefined
   \<and> get (Obj (new_Error_properties ''Grok API error (rate_limited): slow down'')) ''message''
       = Str ''Grok API error (rate_limited): slow down''"
proof -
  let ?resp = "\<lparr> ok = False, statusText = ''Too Many Requests'',
                 body_text = Inr rate_limit_body \<rparr>"
  let ?rt = "mock_backend ?resp rate_limit_parsed"
  let ?payload = "Obj [(''model'', Str DEFAULT_MODEL),
                       (''messages'',
                          Arr [Obj [(''role'', Str ''user''), (''content'', Str ''2+2?'')]])]"
  have built: "buildPayload (toJSONSchema ?rt) (prompt_only ''2+2?'') = Inr ?payload"
    unfolding buildPayload_closed
    by (simp add: prompt_only_def sampling_entry_def nullish_or_def)
  have ne: "rate_limit_body \<noteq> []" by (simp add: rate_limit_body_def)
  have c: "upstream_code rate_limit_parsed = Str ''rate_limited''"
    by (simp add: upstream_code_def rate_limit_parsed_def opt_get_def)
  have m: "upstream_message rate_limit_parsed ''Too Many Requests'' = Str ''slow down''"
    by (simp add: upstream_message_def rate_limit_parsed_def opt_get_def)
  have "handle_body ?rt ?payload ?resp rate_limit_body
          = Inl (api_error (ToString ?rt) rate_limit_parsed (statusText ?resp))"
    using ne by (intro handle_body_failure) (simp_all add: mock_backend_def)
  also have "api_error (ToString ?rt) rate_limit_parsed (statusText ?resp)
               = Error ''Grok API error (rate_limited): slow down''"
    using api_error_strings [of rate_limit_parsed "''Too Many Requests''" "''slow down''"
                                "''rate_limited''" "ToString ?rt"] c m
    by simp
  finally have hb: "handle_body ?rt ?payload ?resp rate_limit_body
                      = Inl (Error ''Grok API error (rate_limited): slow down'')" .
  have "fst (generate example_adapter ?rt (prompt_only ''2+2?''))
          = Inl (Error ''Grok API error (rate_limited): slow down'')"
    using hb by (simp add: generate_built [OF built refl]) (simp add: mock_backend_def)
  then show ?thesis by (simp add: new_Error_properties_def)
qed

text \<open>
  C7, amended. For a response with a failure status whose body is empty or parses,
  \<^verbatim>\<open>generate\<close> rejects. The code is \<^verbatim>\<open>error.code\<close> of the body or else its \<^verbatim>\<open>code\<close>, the
  message \<^verbatim>\<open>error.message\<close> or else its \<^verbatim>\<open>message\<close>, or else the status line, or else
  \<^verbatim>\<open>Unknown error\<close>, each the first that is truthy. The rejection is a plain \<^verbatim>\<open>Error\<close>
  with the message \<^verbatim>\<open>Grok API error (<code>): <message>\<close>, and
  \<^verbatim>\<open>Grok API error: <message>\<close> when there is no code, where code and message stand as the
  template literal writes them (a string as it is, an integer in decimal digits): the code
  is carried in the message only. When the conversion of the code or of the message to a
  string throws, what it throws is the rejection. For the status 429 with the body
  \<^verbatim>\<open>{"error":{"code":"rate_limited","message":"slow down"}}\<close> the message is
  \<^verbatim>\<open>Grok API error (rate_limited): slow down\<close>, and with the number 429 as the code it is
  \<^verbatim>\<open>Grok API error (429): slow down\<close>.
\<close>

theorem generate_upstream_error:
  "(buildPayload (toJSONSchema rt) p = Inr payload
      \<and> fetch rt (build_request a payload
            (buildAbortController (AbortController_defined rt) (timeoutMs p))) = Inr resp
      \<and> \<not> ok resp \<and> body_text resp = Inr txt
      \<and> (if txt = [] then parsed = Undefined else JSON_parse rt txt = Some parsed)
    \<longrightarrow> (\<exists>e. fst (generate a rt p) = Inl e)
      \<and> (\<forall>c m. truthy (upstream_code parsed)
                \<and> interpolate (ToString rt) (upstream_code parsed) = Inr c
                \<and> interpolate (ToString rt) (upstream_message parsed (statusText resp)) = Inr m
            \<longrightarrow> fst (generate a rt p) = Inl (Error (''Grok API error ('' @ c @ ''): '' @ m)))
      \<and> (\<forall>m. \<not> truthy (upstream_code parsed)
                \<and> interpolate (ToString rt) (upstream_message parsed (statusText resp)) = Inr m
            \<longrightarrow> fst (generate a rt p) = Inl (Error (''Grok API error: '' @ m)))
      \<and> (\<forall>t. truthy (upstream_code parsed)
                \<and> interpolate (ToString rt) (upstream_code parsed) = Inl t
            \<longrightarrow> fst (generate a rt p) = Inl (on_catch (Rethrown t)))
      \<and> (\<forall>c t. (\<not> truthy (upstream_code parsed)
                    \<or> interpolate (ToString rt) (upstream_code parsed) = Inr c)
                \<and> interpolate (ToString rt) (upstream_message parsed (statusText resp)) = Inl t
            \<longrightarrow> fst (generate a rt p) = Inl (on_catch (Rethrown t)))
      \<and> (\<forall>c m. upstream_code parsed = Str c \<and> c \<noteq> []
                \<and> upstream_message parsed (statusText resp) = Str m
            \<longrightarrow> fst (generate a rt p) = Inl (Error (''Grok API error ('' @ c @ ''): '' @ m)))
      \<and> (\<forall>m. \<not> truthy (upstream_code parsed)
                \<and> upstream_message parsed (statusText resp) = Str m
            \<longrightarrow> fst (generate a rt p) = Inl (Error (''Grok API error: '' @ m)))
      \<and> (\<forall>n m. upstream_code parsed = Num (of_int n) \<and> n \<noteq> 0 \<and> \<bar>n\<bar> < 9007199254740992
                \<and> upstream_message parsed (statusText resp) = Str m
            \<longrightarrow> fst (generate a rt p)
                  = Inl (Error (''Grok API error ('' @ integer_string n @ ''): '' @ m))))
   \<and> integer_string 429 = ''429''
   \<and> fst (generate example_adapter
            (mock_backend
               \<lparr> ok = False, statusText = ''Too Many Requests'', body_text = Inr rate_limit_body \<rparr>
               rate_limit_parsed)
            (prompt_only ''2+2?''))
       = Inl (Error ''Grok API error (rate_limited): slow down'')
   \<and> (\<forall>conv. fst (generate example_adapter
            ((mock_backend
               \<lparr> ok = False, statusText = ''Too Many Requests'', body_text = Inr rate_limit_body \<rparr>
               (Obj [(''error'', Obj [(''code'', Num 429), (''message'', Str ''slow down'')])]))
              \<lparr> ToString := conv \<rparr>)
            (prompt_only ''2+2?''))
       = Inl (Error ''Grok API error (429): slow down''))"
proof (intro conjI impI allI)
  assume h: "buildPayload (toJSONSchema rt) p = Inr payload
      \<and> fetch rt (build_request a payload
            (buildAbortController (AbortController_defined rt) (timeoutMs p))) = Inr resp
      \<and> \<not> ok resp \<and> body_text resp = Inr txt
      \<and> (if txt = [] then parsed = Undefined else JSON_parse rt txt = Some parsed)"
  then have built: "buildPayload (toJSONSchema rt) p = Inr payload" by simp
  have hb: "handle_body rt payload resp txt
              = Inl (api_error (ToString rt) parsed (statusText resp))"
    using h by (intro handle_body_failure) simp_all
  have g: "fst (generate a rt p) = Inl (on_catch (api_error (ToString rt) parsed (statusText resp)))"
    using h hb by (simp add: generate_built [OF built refl])
  show "\<exists>e. fst (generate a rt p) = Inl e" using g by blast
  show "fst (generate a rt p) = Inl (Error (''Grok API error ('' @ c @ ''): '' @ m))"
    if "truthy (upstream_code parsed)
          \<and> interpolate (ToString rt) (upstream_code parsed) = Inr c
          \<and> interpolate (ToString rt) (upstream_message parsed (statusText resp)) = Inr m"
    for c m
    using that g
      api_error_interpolated
        [where parsed = parsed and conv = "ToString rt" and st = "statusText resp"
           and c = c and m = m]
    by simp
  show "fst (generate a rt p) = Inl (Error (''Grok API error: '' @ m))"
    if "\<not> truthy (upstream_code parsed)
          \<and> interpolate (ToString rt) (upstream_message parsed (statusText resp)) = Inr m"
    for m
    using that g
      api_error_interpolated
        [where parsed = parsed and conv = "ToString rt" and st = "statusText resp" and m = m]
    by simp
  show "fst (generate a rt p) = Inl (on_catch (Rethrown t))"
    if "truthy (upstream_code parsed)
          \<and> interpolate (ToString rt) (upstream_code parsed) = Inl t"
    for t
    using that g
      api_error_interpolated
        [where parsed = parsed and conv = "ToString rt" and st = "statusText resp" and t = t]
    by simp
  show "fst (generate a rt p) = Inl (on_catch (Rethrown t))"
    if "(\<not> truthy (upstream_code parsed)
           \<or> interpolate (ToString rt) (upstream_code parsed) = Inr c)
          \<and> interpolate (ToString rt) (upstream_message parsed (statusText resp)) = Inl t"
    for c t
    using that g
      api_error_interpolated
        [where parsed = parsed and conv = "ToString rt" and st = "statusText resp"
           and c = c and t = t]
    by presburger
  show "fst (generate a rt p) = Inl (Error (''Grok API error ('' @ c @ ''): '' @ m))"
    if "upstream_code parsed = Str c \<and> c \<noteq> []
          \<and> upstream_message parsed (statusText resp) = Str m" for c m
    using that g api_error_strings [of parsed "statusText resp" m c "ToString rt"] by simp
  show "fst (generate a rt p) = Inl (Error (''Grok API error: '' @ m))"
    if "\<not> truthy (upstream_code parsed)
          \<and> upstream_message parsed (statusText resp) = Str m" for m
    using that g api_error_strings [of parsed "statusText resp" m _ "ToString rt"] by simp
  show "fst (generate a rt p)
          = Inl (Error (''Grok API error ('' @ integer_string n @ ''): '' @ m))"
    if "upstream_code parsed = Num (of_int n) \<and> n \<noteq> 0 \<and> \<bar>n\<bar> < 9007199254740992
          \<and> upstream_message parsed (statusText resp) = Str m" for n m
  proof -
    from that have i: "truthy (upstream_code parsed)
        \<and> interpolate (ToString rt) (upstream_code parsed) = Inr (integer_string n)"
      using interpolate_integer [of n "ToString rt"] by simp
    from that have "interpolate (ToString rt) (upstream_message parsed (statusText resp)) = Inr m"
      by simp
    with i g show ?thesis
      using api_error_interpolated
        [where parsed = parsed and conv = "ToString rt" and st = "statusText resp"
           and c = "integer_string n" and m = m]
      by simp
  qed
next
  show "integer_string 429 = ''429''" by (simp add: integer_string_def decimal.simps)
next
  let ?resp = "\<lparr> ok = False, statusText = ''Too Many Requests'',
                 body_text = Inr rate_limit_body \<rparr>"
  let ?rt = "mock_backend ?resp rate_limit_parsed"
  let ?payload = "Obj [(''model'', Str DEFAULT_MODEL),
                       (''messages'',
                          Arr [Obj [(''role'', Str ''user''), (''content'', Str ''2+2?'')]])]"
  have built: "buildPayload (toJSONSchema ?rt) (prompt_only ''2+2?'') = Inr ?payload"
    unfolding buildPayload_closed
    by (simp add: prompt_only_def sampling_entry_def nullish_or_def)
  have ne: "rate_limit_body \<noteq> []" by (simp add: rate_limit_body_def)
  have c: "upstream_code rate_limit_parsed = Str ''rate_limited''"
    by (simp add: upstream_code_def rate_limit_parsed_def opt_get_def)
  have m: "upstream_message rate_limit_parsed ''Too Many Requests'' = Str ''slow down''"
    by (simp add: upstream_message_def rate_limit_parsed_def opt_get_def)
  have "handle_body ?rt ?payload ?resp rate_limit_body
          = Inl (api_error (ToString ?rt) rate_limit_parsed (statusText ?resp))"
    using ne by (intro handle_body_failure) (simp_all add: mock_backend_def)
  also have "api_error (ToString ?rt) rate_limit_parsed (statusText ?resp)
               = Error ''Grok API error (rate_limited): slow down''"
    using api_error_strings [of rate_limit_parsed "''Too Many Requests''" "''slow down''"
                                "''rate_limited''" "ToString ?rt"] c m
    by simp
  finally have hb: "handle_body ?rt ?payload ?resp rate_limit_body
                      = Inl (Error ''Grok API error (rate_limited): slow down'')" .
  show "fst (generate example_adapter ?rt (prompt_only ''2+2?''))
          = Inl (Error ''Grok API error (rate_limited): slow down'')"
    using hb by (simp add: generate_built [OF built refl]) (simp add: mock_backend_def)
next
  fix conv
  let ?resp = "\<lparr> ok = False, statusText = ''Too Many Requests'',
                 body_text = Inr rate_limit_body \<rparr>"
  let ?v = "Obj [(''error'', Obj [(''code'', Num 429), (''message'', Str ''slow down'')])]"
  let ?rt = "(mock_backend ?resp ?v) \<lparr> ToString := conv \<rparr>"
  let ?payload = "Obj [(''model'', Str DEFAULT_MODEL),
                       (''messages'',
                          Arr [Obj [(''role'', Str ''user''), (''content'', Str ''2+2?'')]])]"
  have built: "buildPayload (toJSONSchema ?rt) (prompt_only ''2+2?'') = Inr ?payload"
    unfolding buildPayload_closed
    by (simp add: prompt_only_def sampling_entry_def nullish_or_def)
  have ne: "rate_limit_body \<noteq> []" by (simp add: rate_limit_body_def)
  have c: "upstream_code ?v = Num 429"
    by (simp add: upstream_code_def opt_get_def)
  have m: "upstream_message ?v ''Too Many Requests'' = Str ''slow down''"
    by (simp add: upstream_message_def opt_get_def)
  have i: "interpolate conv (Num 429) = Inr ''429''"
    by (simp add: integer_string_def decimal.simps)
  have "handle_body ?rt ?payload ?resp rate_limit_body
          = Inl (api_error (ToString ?rt) ?v (statusText ?resp))"
    using ne by (intro handle_body_failure) (simp_all add: mock_backend_def)
  also have "api_error (ToString ?rt) ?v (statusText ?resp)
               = Error ''Grok API error (429): slow down''"
    using api_error_interpolated
            [where parsed = ?v and conv = conv and st = "''Too Many Requests''"
               and c = "''429''" and m = "''slow down''"]
          c m i
    by simp
  finally have hb: "handle_body ?rt ?payload ?resp rate_limit_body
                      = Inl (Error ''Grok API error (429): slow down'')" .
  show "fst (generate example_adapter ?rt (prompt_only ''2+2?''))
          = Inl (Error ''Grok API error (429): slow down'')"
    using hb by (simp add: generate_built [OF built refl]) (simp add: mock_backend_def)
qed

theorem generate_upstream_error_witness:
  "fst (generate example_adapter
          (mock_backend \<lparr> ok = False, statusText = ''Bad Gateway'', body_text = Inr [] \<rparr> Null)
          (prompt_only ''hi''))
     = Inl (Error ''Grok API error: Bad Gateway'')
   \<and> fst (generate example_adapter
          (mock_backend
             \<lparr> ok = False, statusText = ''Forbidden'', body_text = Inr rate_limit_body \<rparr>
             (Obj [(''code'', Str ''E42''), (''message'', Str ''no access'')]))
          (prompt_only ''hi''))
     = Inl (Error ''Grok API error (E42): no access'')
   \<and> fst (generate example_adapter
          (mock_backend
             \<lparr> ok = False, statusText = ''Service Unavailable'', body_text = Inr rate_limit_body \<rparr>
             (Obj [(''error'', Obj [(''code'', Num 503)]), (''message'', Str ''try later'')]))
          (prompt_only ''hi''))
     = Inl (Error ''Grok API error (503): try later'')
   \<and> fst (generate example_adapter
          ((mock_backend
             \<lparr> ok = False, statusText = ''Bad Request'', body_text = Inr rate_limit_body \<rparr>
             (Obj [(''error'', Obj [(''code'', Obj [(''toString'', Num 1)])])]))
            \<lparr> ToString := (\<lambda>v. Inl (Thrown_Error False ''TypeError''
                                      ''Cannot convert object to primitive value'')) \<rparr>)
          (prompt_only ''hi''))
     = Inl (Rethrown (Thrown_Error False ''TypeError''
                        ''Cannot convert object to primitive value''))"
proof -
  let ?payload = "Obj [(''model'', Str DEFAULT_MODEL),
                       (''messages'',
                          Arr [Obj [(''role'', Str ''user''), (''content'', Str ''hi'')]])]"
  let ?r1 = "\<lparr> ok = False, statusText = ''Bad Gateway'', body_text = Inr [] \<rparr>"
  let ?r2 = "\<lparr> ok = False, statusText = ''Forbidden'', body_text = Inr rate_limit_body \<rparr>"
  let ?v2 = "Obj [(''code'', Str ''E42''), (''message'', Str ''no access'')]"
  let ?r3 = "\<lparr> ok = False, statusText = ''Service Unavailable'',
               body_text = Inr rate_limit_body \<rparr>"
  let ?v3 = "Obj [(''error'', Obj [(''code'', Num 503)]), (''message'', Str ''try later'')]"
  let ?r4 = "\<lparr> ok = False, statusText = ''Bad Request'', body_text = Inr rate_limit_body \<rparr>"
  let ?v4 = "Obj [(''error'', Obj [(''code'', Obj [(''toString'', Num 1)])])]"
  let ?t = "Thrown_Error False ''TypeError'' ''Cannot convert object to primitive value''"
  let ?rt4 = "(mock_backend ?r4 ?v4) \<lparr> ToString := (\<lambda>v. Inl ?t) \<rparr>"
  have built: "\<And>resp v. buildPayload (toJSONSchema (mock_backend resp v)) (prompt_only ''hi'')
                 = Inr ?payload"
    unfolding buildPayload_closed
    by (simp add: prompt_only_def sampling_entry_def nullish_or_def)
  have built4: "buildPayload (toJSONSchema ?rt4) (prompt_only ''hi'') = Inr ?payload"
    using built [of ?r4 ?v4] by simp
  have fetched: "\<And>resp v. fetch (mock_backend resp v)
            (build_request example_adapter ?payload
               (buildAbortController (AbortController_defined (mock_backend resp v))
                  (timeoutMs (prompt_only ''hi'')))) = Inr resp"
    by (simp add: mock_backend_def)
  have fetched4: "fetch ?rt4
            (build_request example_adapter ?payload
               (buildAbortController (AbortController_defined ?rt4)
                  (timeoutMs (prompt_only ''hi'')))) = Inr ?r4"
    by (simp add: mock_backend_def)
  have ne: "rate_limit_body \<noteq> []" by (simp add: rate_limit_body_def)
  have p2: "JSON_parse (mock_backend ?r2 ?v2) rate_limit_body = Some ?v2"
    by (simp add: mock_backend_def)
  have p3: "JSON_parse (mock_backend ?r3 ?v3) rate_limit_body = Some ?v3"
    by (simp add: mock_backend_def)
  have p4: "JSON_parse ?rt4 rate_limit_body = Some ?v4"
    by (simp add: mock_backend_def)
  have c1: "\<not> truthy (upstream_code Undefined)"
    by (simp add: upstream_code_def opt_get_def)
  have m1: "upstream_message Undefined ''Bad Gateway'' = Str ''Bad Gateway''"
    by (simp add: upstream_message_def opt_get_def)
  have c2: "upstream_code ?v2 = Str ''E42''"
    by (simp add: upstream_code_def opt_get_def)
  have m2: "upstream_message ?v2 ''Forbidden'' = Str ''no access''"
    by (simp add: upstream_message_def opt_get_def)
  have c3: "upstream_code ?v3 = Num (of_int 503)"
    by (simp add: upstream_code_def opt_get_def)
  have m3: "upstream_message ?v3 ''Service Unavailable'' = Str ''try later''"
    by (simp add: upstream_message_def opt_get_def)
  have s3: "integer_string 503 = ''503''" by (simp add: integer_string_def decimal.simps)
  have c4: "upstream_code ?v4 = Obj [(''toString'', Num 1)]"
    by (simp add: upstream_code_def opt_get_def)
  have i4: "interpolate (ToString ?rt4) (Obj [(''toString'', Num 1)]) = Inl ?t"
    by simp
  have g1: "fst (generate example_adapter (mock_backend ?r1 Null) (prompt_only ''hi''))
              = Inl (Error ''Grok API error: Bad Gateway'')"
    using generate_upstream_error
            [of "mock_backend ?r1 Null" "prompt_only ''hi''" ?payload example_adapter ?r1 "[]"
                Undefined]
          built [of ?r1 Null] fetched [of ?r1 Null] c1 m1
    by simp
  have g2: "fst (generate example_adapter (mock_backend ?r2 ?v2) (prompt_only ''hi''))
              = Inl (Error ''Grok API error (E42): no access'')"
    using generate_upstream_error
            [of "mock_backend ?r2 ?v2" "prompt_only ''hi''" ?payload example_adapter ?r2
                rate_limit_body ?v2]
          built [of ?r2 ?v2] fetched [of ?r2 ?v2] ne p2 c2 m2
    by simp
  have g3: "fst (generate example_adapter (mock_backend ?r3 ?v3) (prompt_only ''hi''))
              = Inl (Error (''Grok API error ('' @ integer_string 503 @ ''): '' @ ''try later''))"
  proof -
    have "\<forall>n m. upstream_code ?v3 = Num (of_int n) \<and> n \<noteq> 0 \<and> \<bar>n\<bar> < 9007199254740992
                \<and> upstream_message ?v3 (statusText ?r3) = Str m
            \<longrightarrow> fst (generate example_adapter (mock_backend ?r3 ?v3) (prompt_only ''hi''))
                  = Inl (Error (''Grok API error ('' @ integer_string n @ ''): '' @ m))"
      using generate_upstream_error
            [of "mock_backend ?r3 ?v3" "prompt_only ''hi''" ?payload example_adapter ?r3
                rate_limit_body ?v3]
          built [of ?r3 ?v3] fetched [of ?r3 ?v3] ne p3
      by simp
    then show ?thesis using c3 m3 by simp
  qed
  have g4: "fst (generate example_adapter ?rt4 (prompt_only ''hi''))
              = Inl (on_catch (Rethrown ?t))"
  proof -
    have "\<forall>t. truthy (upstream_code ?v4)
                \<and> interpolate (ToString ?rt4) (upstream_code ?v4) = Inl t
            \<longrightarrow> fst (generate example_adapter ?rt4 (prompt_only ''hi''))
                  = Inl (on_catch (Rethrown t))"
      using generate_upstream_error
            [of ?rt4 "prompt_only ''hi''" ?payload example_adapter ?r4 rate_limit_body ?v4]
          built4 fetched4 ne p4
      by simp
    then show ?thesis using c4 i4 by simp
  qed
  show ?thesis using g1 g2 g3 g4 s3 by simp
qed

section \<open>Deadline and release of the timer\<close>

lemma pending_timers_generate_events:
  "pending_timers (set_events c @ sent @ clear c) 0 = 0"
  if "sent = [] \<or> (\<exists>r. sent = [Fetch r])"
  using that by (cases c) (auto simp: set_events_def clear_def)

lemma generate_events:
  "snd (generate a rt p) =
     set_events (buildAbortController (AbortController_defined rt) (timeoutMs p))
     @ (case buildPayload (toJSONSchema rt) p of
          Inl e \<Rightarrow> []
        | Inr payload \<Rightarrow>
            [Fetch (build_request a payload
                      (buildAbortController (AbortController_defined rt) (timeoutMs p)))])
     @ clear (buildAbortController (AbortController_defined rt) (timeoutMs p))"
proof (cases "buildPayload (toJSONSchema rt) p")
  case (Inl e)
  then show ?thesis by (simp add: generate_not_built)
next
  case (Inr payload)
  then show ?thesis by (simp add: generate_built [OF Inr refl])
qed

lemma buildAbortController_Some:
  "buildAbortController supported t = Some ms \<longleftrightarrow> t = Some ms \<and> 0 < ms \<and> supported"
  by (auto simp: buildAbortController_def split: option.splits)

lemma buildAbortController_None:
  "buildAbortController supported t = None
     \<longleftrightarrow> \<not> (\<exists>ms. t = Some ms \<and> 0 < ms \<and> supported)"
  by (auto simp: buildAbortController_def split: option.splits)

lemma on_catch_other:
  "(\<forall>m. t \<noteq> Thrown_Error True ''AbortError'' m) \<Longrightarrow> on_catch (Rethrown t) = Rethrown t"
  by (cases t) auto

text \<open>
  C9 fails for a long deadline. The delay that \<^verbatim>\<open>buildAbortController\<close> gives to
  \<^verbatim>\<open>setTimeout\<close> is \<^verbatim>\<open>timeoutMs\<close> as it came, with no upper bound. For
  \<^verbatim>\<open>generate({prompt: "x", timeoutMs: 2147483648})\<close> (\<open>2\<^sup>3\<^sup>1\<close> milliseconds) the call sets a
  timer of delay 2147483648 and sends the request with the controller's signal; the runtime
  runs the callback of a timer whose delay is above \<open>2\<^sup>3\<^sup>1 - 1\<close> after 1 millisecond. So
  the cancellation token fires after 1 millisecond, not after \<^verbatim>\<open>timeoutMs\<close>, and a request
  that is not answered within a millisecond is aborted.
\<close>

theorem generate_deadline_overflow:
  "snd (generate example_adapter
          (mock_backend \<lparr> ok = True, statusText = ''OK'', body_text = Inr success_body \<rparr>
             success_parsed)
          ((prompt_only ''x'') \<lparr> timeoutMs := Some 2147483648 \<rparr>))
     = [SetTimeout 2147483648,
        Fetch \<lparr> url = ''https://api.x.ai/v1/chat/completions'', authorization = ''Bearer xai-123'',
                content_type = ''application/json'',
                body = Obj [(''model'', Str ''grok-4-1-fast-non-reasoning''),
                            (''messages'',
                               Arr [Obj [(''role'', Str ''user''), (''content'', Str ''x'')]])],
                signal = True \<rparr>,
        ClearTimeout]
   \<and> timer_fires_after 2147483648 = 1
   \<and> deadline (snd (generate example_adapter
          (mock_backend \<lparr> ok = True, statusText = ''OK'', body_text = Inr success_body \<rparr>
             success_parsed)
          ((prompt_only ''x'') \<lparr> timeoutMs := Some 2147483648 \<rparr>))) = Some 1
   \<and> deadline (snd (generate example_adapter
          (mock_backend \<lparr> ok = True, statusText = ''OK'', body_text = Inr success_body \<rparr>
             success_parsed)
          ((prompt_only ''x'') \<lparr> timeoutMs := Some 2147483648 \<rparr>))) \<noteq> Some 2147483648"
proof -
  let ?rt = "mock_backend \<lparr> ok = True, statusText = ''OK'', body_text = Inr success_body \<rparr>
               success_parsed"
  let ?p = "(prompt_only ''x'') \<lparr> timeoutMs := Some 2147483648 \<rparr>"
  let ?payload = "Obj [(''model'', Str ''grok-4-1-fast-non-reasoning''),
                       (''messages'',
                          Arr [Obj [(''role'', Str ''user''), (''content'', Str ''x'')]])]"
  have b: "buildPayload (toJSONSchema ?rt) ?p = Inr ?payload"
    unfolding buildPayload_closed
    by (simp add: prompt_only_def sampling_entry_def nullish_or_def DEFAULT_MODEL_def)
  have c: "buildAbortController (AbortController_defined ?rt) (timeoutMs ?p) = Some 2147483648"
    by (simp add: buildAbortController_def mock_backend_def)
  have rq: "build_request example_adapter ?payload (Some 2147483648)
              = \<lparr> url = ''https://api.x.ai/v1/chat/completions'',
                  authorization = ''Bearer xai-123'', content_type = ''application/json'',
                  body = ?payload, signal = True \<rparr>"
    by (simp add: build_request_def example_adapter_def)
  have ev: "snd (generate example_adapter ?rt ?p)
              = [SetTimeout 2147483648,
                 Fetch (build_request example_adapter ?payload (Some 2147483648)),
                 ClearTimeout]"
    unfolding generate_events b c by (simp add: set_events_def clear_def)
  have t: "timer_fires_after 2147483648 = 1"
    by (simp add: timer_fires_after_def TIMEOUT_MAX_def)
  have d: "deadline (snd (generate example_adapter ?rt ?p)) = Some 1"
    unfolding ev by (simp add: t)
  show ?thesis
    unfolding d using ev t by (simp add: rq)
qed

text \<open>
  What the deadline does guarantee. With a positive \<^verbatim>\<open>timeoutMs\<close> and \<^verbatim>\<open>AbortController\<close>
  available, \<^verbatim>\<open>generate\<close> sets a timer of that delay, which aborts the controller, and sends
  the request with the controller's signal; when the delay is a whole number of
  milliseconds between 1 and \<open>2\<^sup>3\<^sup>1 - 1\<close> the token fires after \<^verbatim>\<open>timeoutMs\<close>. When \<^verbatim>\<open>fetch\<close>, or the reading of the
  body, is aborted (it throws the \<^verbatim>\<open>DOMException\<close> named \<^verbatim>\<open>AbortError\<close>), \<^verbatim>\<open>generate\<close>
  rejects with the adapter's time-out error, \<^verbatim>\<open>Error("Grok request timed out.")\<close>; anything
  else that \<^verbatim>\<open>fetch\<close> or the reading of the body throws is the rejection, unchanged. Whatever
  the outcome (a result, a thrown error, an abort, or a payload that cannot be built), the
  timer has been cleared when the call ends: no timer is pending. Without \<^verbatim>\<open>timeoutMs\<close>,
  with one that is not positive, or without \<^verbatim>\<open>AbortController\<close>, no timer is set, the
  request carries no signal and the call has no deadline.
\<close>

theorem generate_deadline:
  "(timeoutMs p = Some ms \<and> 0 < ms \<and> AbortController_defined rt
      \<and> buildPayload (toJSONSchema rt) p = Inr payload
    \<longrightarrow> snd (generate a rt p)
          = [SetTimeout ms, Fetch (build_request a payload (Some ms)), ClearTimeout]
      \<and> signal (build_request a payload (Some ms))
      \<and> (1 \<le> ms \<and> ms \<le> 2147483647 \<and> of_int \<lfloor>ms\<rfloor> = ms
          \<longrightarrow> deadline (snd (generate a rt p)) = Some ms))
   \<and> (buildPayload (toJSONSchema rt) p = Inr payload
      \<and> fetch rt (build_request a payload
            (buildAbortController (AbortController_defined rt) (timeoutMs p)))
          = Inl (Thrown_Error True ''AbortError'' m)
    \<longrightarrow> fst (generate a rt p) = Inl (Error ''Grok request timed out.''))
   \<and> (buildPayload (toJSONSchema rt) p = Inr payload
      \<and> fetch rt (build_request a payload
            (buildAbortController (AbortController_defined rt) (timeoutMs p))) = Inr resp
      \<and> body_text resp = Inl (Thrown_Error True ''AbortError'' m)
    \<longrightarrow> fst (generate a rt p) = Inl (Error ''Grok request timed out.''))
   \<and> (buildPayload (toJSONSchema rt) p = Inr payload
      \<and> fetch rt (build_request a payload
            (buildAbortController (AbortController_defined rt) (timeoutMs p))) = Inl t
      \<and> (\<forall>m'. t \<noteq> Thrown_Error True ''AbortError'' m')
    \<longrightarrow> fst (generate a rt p) = Inl (Rethrown t))
   \<and> (buildPayload (toJSONSchema rt) p = Inr payload
      \<and> fetch rt (build_request a payload
            (buildAbortController (AbortController_defined rt) (timeoutMs p))) = Inr resp
      \<and> body_text resp = Inl t
      \<and> (\<forall>m'. t \<noteq> Thrown_Error True ''AbortError'' m')
    \<longrightarrow> fst (generate a rt p) = Inl (Rethrown t))
   \<and> pending_timers (snd (generate a rt p)) 0 = 0
   \<and> (\<not> (\<exists>ms. timeoutMs p = Some ms \<and> 0 < ms \<and> AbortController_defined rt)
    \<longrightarrow> (\<forall>ms. SetTimeout ms \<notin> set (snd (generate a rt p)))
      \<and> (\<forall>r. Fetch r \<in> set (snd (generate a rt p)) \<longrightarrow> \<not> signal r)
      \<and> deadline (snd (generate a rt p)) = None)"
proof (intro conjI impI)
  assume h: "timeoutMs p = Some ms \<and> 0 < ms \<and> AbortController_defined rt
      \<and> buildPayload (toJSONSchema rt) p = Inr payload"
  then have c: "buildAbortController (AbortController_defined rt) (timeoutMs p) = Some ms"
    by (simp add: buildAbortController_Some)
  show ev: "snd (generate a rt p)
          = [SetTimeout ms, Fetch (build_request a payload (Some ms)), ClearTimeout]"
    using h unfolding generate_events c by (simp add: set_events_def clear_def)
  show "signal (build_request a payload (Some ms))" by (simp add: build_request_def)
  show "deadline (snd (generate a rt p)) = Some ms"
    if "1 \<le> ms \<and> ms \<le> 2147483647 \<and> of_int \<lfloor>ms\<rfloor> = ms"
    unfolding ev using that by (simp add: timer_fires_after_def TIMEOUT_MAX_def)
next
  assume h: "buildPayload (toJSONSchema rt) p = Inr payload
      \<and> fetch rt (build_request a payload
            (buildAbortController (AbortController_defined rt) (timeoutMs p)))
          = Inl (Thrown_Error True ''AbortError'' m)"
  then have built: "buildPayload (toJSONSchema rt) p = Inr payload" by simp
  show "fst (generate a rt p) = Inl (Error ''Grok request timed out.'')"
    using h by (simp add: generate_built [OF built refl])
next
  assume h: "buildPayload (toJSONSchema rt) p = Inr payload
      \<and> fetch rt (build_request a payload
            (buildAbortController (AbortController_defined rt) (timeoutMs p))) = Inr resp
      \<and> body_text resp = Inl (Thrown_Error True ''AbortError'' m)"
  then have built: "buildPayload (toJSONSchema rt) p = Inr payload" by simp
  show "fst (generate a rt p) = Inl (Error ''Grok request timed out.'')"
    using h by (simp add: generate_built [OF built refl])
next
  assume h: "buildPayload (toJSONSchema rt) p = Inr payload
      \<and> fetch rt (build_request a payload
            (buildAbortController (AbortController_defined rt) (timeoutMs p))) = Inl t
      \<and> (\<forall>m'. t \<noteq> Thrown_Error True ''AbortError'' m')"
  then have built: "buildPayload (toJSONSchema rt) p = Inr payload" by simp
  from h have o: "on_catch (Rethrown t) = Rethrown t" by (intro on_catch_other) simp
  show "fst (generate a rt p) = Inl (Rethrown t)"
    using h o by (simp add: generate_built [OF built refl])
next
  assume h: "buildPayload (toJSONSchema rt) p = Inr payload
      \<and> fetch rt (build_request a payload
            (buildAbortController (AbortController_defined rt) (timeoutMs p))) = Inr resp
      \<and> body_text resp = Inl t
      \<and> (\<forall>m'. t \<noteq> Thrown_Error True ''AbortError'' m')"
  then have built: "buildPayload (toJSONSchema rt) p = Inr payload" by simp
  from h have o: "on_catch (Rethrown t) = Rethrown t" by (intro on_catch_other) simp
  show "fst (generate a rt p) = Inl (Rethrown t)"
    using h o by (simp add: generate_built [OF built refl])
next
  show "pending_timers (snd (generate a rt p)) 0 = 0"
    unfolding generate_events
    by (rule pending_timers_generate_events) (simp split: sum.splits)
next
  assume "\<not> (\<exists>ms. timeoutMs p = Some ms \<and> 0 < ms \<and> AbortController_defined rt)"
  then have c: "buildAbortController (AbortController_defined rt) (timeoutMs p) = None"
    by (simp add: buildAbortController_None)
  show "\<forall>ms. SetTimeout ms \<notin> set (snd (generate a rt p))"
    unfolding generate_events c by (simp add: set_events_def clear_def split: sum.splits)
  show "\<forall>r. Fetch r \<in> set (snd (generate a rt p)) \<longrightarrow> \<not> signal r"
    unfolding generate_events c
    by (auto simp: set_events_def clear_def build_request_def split: sum.splits)
  show "deadline (snd (generate a rt p)) = None"
    unfolding generate_events c by (simp add: set_events_def clear_def split: sum.splits)
qed

theorem generate_deadline_witness:
  "generate example_adapter
     ((mock_backend \<lparr> ok = True, statusText = ''OK'', body_text = Inr success_body \<rparr> Null)
        \<lparr> fetch := (\<lambda>req. if signal req
                            then Inl (Thrown_Error True ''AbortError'' ''This operation was aborted'')
                            else Inr \<lparr> ok = True, statusText = ''OK'',
                                      body_text = Inl (Thrown_Error True ''AbortError'' ''aborted'') \<rparr>) \<rparr>)
     ((prompt_only ''x'') \<lparr> timeoutMs := Some 1 \<rparr>)
   = (Inl (Error ''Grok request timed out.''),
      [SetTimeout 1,
       Fetch \<lparr> url = ''https://api.x.ai/v1/chat/completions'', authorization = ''Bearer xai-123'',
               content_type = ''application/json'',
               body = Obj [(''model'', Str ''grok-4-1-fast-non-reasoning''),
                           (''messages'',
                              Arr [Obj [(''role'', Str ''user''), (''content'', Str ''x'')]])],
               signal = True \<rparr>,
       ClearTimeout])
   \<and> deadline (snd (generate example_adapter
     ((mock_backend \<lparr> ok = True, statusText = ''OK'', body_text = Inr success_body \<rparr> Null)
        \<lparr> fetch := (\<lambda>req. if signal req
                            then Inl (Thrown_Error True ''AbortError'' ''This operation was aborted'')
                            else Inr \<lparr> ok = True, statusText = ''OK'',
                                      body_text = Inl (Thrown_Error True ''AbortError'' ''aborted'') \<rparr>) \<rparr>)
     ((prompt_only ''x'') \<lparr> timeoutMs := Some 1 \<rparr>))) = Some 1
   \<and> generate example_adapter
     ((mock_backend \<lparr> ok = True, statusText = ''OK'', body_text = Inr success_body \<rparr> Null)
        \<lparr> fetch := (\<lambda>req. if signal req
                            then Inl (Thrown_Error True ''AbortError'' ''This operation was aborted'')
                            else Inr \<lparr> ok = True, statusText = ''OK'',
                                      body_text = Inl (Thrown_Error True ''AbortError'' ''aborted'') \<rparr>) \<rparr>)
     ((prompt_only ''x'') \<lparr> timeoutMs := Some 0 \<rparr>)
   = (Inl (Error ''Grok request timed out.''),
      [Fetch \<lparr> url = ''https://api.x.ai/v1/chat/completions'', authorization = ''Bearer xai-123'',
               content_type = ''application/json'',
               body = Obj [(''model'', Str ''grok-4-1-fast-non-reasoning''),
                           (''messages'',
                              Arr [Obj [(''role'', Str ''user''), (''content'', Str ''x'')]])],
               signal = False \<rparr>])
   \<and> fst (generate example_adapter
     ((mock_backend \<lparr> ok = True, statusText = ''OK'', body_text = Inr success_body \<rparr> Null)
        \<lparr> fetch := (\<lambda>req. if signal req
                            then Inl (Thrown_Error False ''TypeError'' ''fetch failed'')
                            else Inr \<lparr> ok = True, statusText = ''OK'',
                                      body_text = Inl (Thrown_Value (Str ''reset'')) \<rparr>) \<rparr>)
     ((prompt_only ''x'') \<lparr> timeoutMs := Some 1 \<rparr>))
   = Inl (Rethrown (Thrown_Error False ''TypeError'' ''fetch failed''))
   \<and> fst (generate example_adapter
     ((mock_backend \<lparr> ok = True, statusText = ''OK'', body_text = Inr success_body \<rparr> Null)
        \<lparr> fetch := (\<lambda>req. if signal req
                            then Inl (Thrown_Error False ''TypeError'' ''fetch failed'')
                            else Inr \<lparr> ok = True, statusText = ''OK'',
                                      body_text = Inl (Thrown_Value (Str ''reset'')) \<rparr>) \<rparr>)
     (prompt_only ''x''))
   = Inl (Rethrown (Thrown_Value (Str ''reset'')))"
proof -
  let ?rt = "(mock_backend \<lparr> ok = True, statusText = ''OK'', body_text = Inr success_body \<rparr> Null)
        \<lparr> fetch := (\<lambda>req. if signal req
                            then Inl (Thrown_Error True ''AbortError'' ''This operation was aborted'')
                            else Inr \<lparr> ok = True, statusText = ''OK'',
                                      body_text = Inl (Thrown_Error True ''AbortError'' ''aborted'') \<rparr>) \<rparr>"
  let ?rt' = "(mock_backend \<lparr> ok = True, statusText = ''OK'', body_text = Inr success_body \<rparr> Null)
        \<lparr> fetch := (\<lambda>req. if signal req
                            then Inl (Thrown_Error False ''TypeError'' ''fetch failed'')
                            else Inr \<lparr> ok = True, statusText = ''OK'',
                                      body_text = Inl (Thrown_Value (Str ''reset'')) \<rparr>) \<rparr>"
  let ?p1 = "(prompt_only ''x'') \<lparr> timeoutMs := Some 1 \<rparr>"
  let ?p0 = "(prompt_only ''x'') \<lparr> timeoutMs := Some 0 \<rparr>"
  let ?pn = "prompt_only ''x''"
  let ?payload = "Obj [(''model'', Str ''grok-4-1-fast-non-reasoning''),
                       (''messages'',
                          Arr [Obj [(''role'', Str ''user''), (''content'', Str ''x'')]])]"
  let ?r = "\<lparr> ok = True, statusText = ''OK'',
              body_text = Inl (Thrown_Error True ''AbortError'' ''aborted'') \<rparr>"
  let ?r' = "\<lparr> ok = True, statusText = ''OK'', body_text = Inl (Thrown_Value (Str ''reset'')) \<rparr>"
  let ?te = "Thrown_Error False ''TypeError'' ''fetch failed''"
  have b1: "buildPayload (toJSONSchema ?rt) ?p1 = Inr ?payload"
    unfolding buildPayload_closed
    by (simp add: prompt_only_def sampling_entry_def nullish_or_def DEFAULT_MODEL_def)
  have b0: "buildPayload (toJSONSchema ?rt) ?p0 = Inr ?payload"
    unfolding buildPayload_closed
    by (simp add: prompt_only_def sampling_entry_def nullish_or_def DEFAULT_MODEL_def)
  have b1': "buildPayload (toJSONSchema ?rt') ?p1 = Inr ?payload"
    unfolding buildPayload_closed
    by (simp add: prompt_only_def sampling_entry_def nullish_or_def DEFAULT_MODEL_def)
  have bn': "buildPayload (toJSONSchema ?rt') ?pn = Inr ?payload"
    unfolding buildPayload_closed
    by (simp add: prompt_only_def sampling_entry_def nullish_or_def DEFAULT_MODEL_def)
  have s: "AbortController_defined ?rt" by (simp add: mock_backend_def)
  have t1: "timeoutMs ?p1 = Some 1" and t0: "timeoutMs ?p0 = Some 0" by simp_all
  have c1: "buildAbortController (AbortController_defined ?rt) (timeoutMs ?p1) = Some 1"
    by (simp add: buildAbortController_def mock_backend_def)
  have c0: "buildAbortController (AbortController_defined ?rt) (timeoutMs ?p0) = None"
    by (simp add: buildAbortController_def mock_backend_def)
  have c1': "buildAbortController (AbortController_defined ?rt') (timeoutMs ?p1) = Some 1"
    by (simp add: buildAbortController_def mock_backend_def)
  have cn': "buildAbortController (AbortController_defined ?rt') (timeoutMs ?pn) = None"
    by (simp add: buildAbortController_def prompt_only_def)
  have f1: "fetch ?rt (build_request example_adapter ?payload (Some 1))
              = Inl (Thrown_Error True ''AbortError'' ''This operation was aborted'')"
    by (simp add: build_request_def)
  have f0: "fetch ?rt (build_request example_adapter ?payload None) = Inr ?r"
    by (simp add: build_request_def)
  have f1': "fetch ?rt' (build_request example_adapter ?payload (Some 1)) = Inl ?te"
    by (simp add: build_request_def)
  have fn': "fetch ?rt' (build_request example_adapter ?payload None) = Inr ?r'"
    by (simp add: build_request_def)
  have rq: "\<And>c. build_request example_adapter ?payload c
              = \<lparr> url = ''https://api.x.ai/v1/chat/completions'',
                  authorization = ''Bearer xai-123'', content_type = ''application/json'',
                  body = ?payload, signal = (c \<noteq> None) \<rparr>"
    by (simp add: build_request_def example_adapter_def)
  have g1: "snd (generate example_adapter ?rt ?p1)
              = [SetTimeout 1, Fetch (build_request example_adapter ?payload (Some 1)), ClearTimeout]
            \<and> fst (generate example_adapter ?rt ?p1) = Inl (Error ''Grok request timed out.'')
            \<and> deadline (snd (generate example_adapter ?rt ?p1)) = Some 1"
    using generate_deadline
            [where p = ?p1 and ms = 1 and rt = ?rt and payload = ?payload and a = example_adapter
               and m = "''This operation was aborted''"]
          b1 s t1 f1 c1
    by (simp add: timer_fires_after_def TIMEOUT_MAX_def)
  have e0: "\<not> (\<exists>ms. timeoutMs ?p0 = Some ms \<and> 0 < ms \<and> AbortController_defined ?rt)"
    by simp
  have g0: "fst (generate example_adapter ?rt ?p0) = Inl (Error ''Grok request timed out.'')
            \<and> (\<forall>ms. SetTimeout ms \<notin> set (snd (generate example_adapter ?rt ?p0)))"
    using generate_deadline
            [where p = ?p0 and ms = 0 and rt = ?rt and payload = ?payload and a = example_adapter
               and m = "''aborted''" and resp = ?r]
          b0 f0 c0 e0
    by simp
  have ev0: "snd (generate example_adapter ?rt ?p0)
               = [Fetch (build_request example_adapter ?payload None)]"
    unfolding generate_events b0 c0 by (simp add: set_events_def clear_def)
  have g2: "fst (generate example_adapter ?rt' ?p1) = Inl (Rethrown ?te)"
    using generate_deadline
            [where p = ?p1 and rt = ?rt' and payload = ?payload and a = example_adapter
               and t = ?te]
          b1' f1' c1'
    by simp
  have g3: "fst (generate example_adapter ?rt' ?pn) = Inl (Rethrown (Thrown_Value (Str ''reset'')))"
    using generate_deadline
            [where p = ?pn and rt = ?rt' and payload = ?payload and a = example_adapter
               and t = "Thrown_Value (Str ''reset'')" and resp = ?r']
          bn' fn' cn'
    by simp
  show ?thesis
    using g1 g0 ev0 g2 g3
    by (simp add: prod_eq_iff rq timer_fires_after_def TIMEOUT_MAX_def)
qed

section \<open>Empty and unparsable bodies\<close>

lemma handle_body_empty_text:
  assumes "ok resp"
  shows "handle_body rt payload resp [] = Inl (Error ''Grok API returned an empty response.'')"
  using assms
  by (simp add: handle_body_def first_choice_def opt_get_def extractTextFromChoice_def)

lemma handle_body_no_text:
  assumes "ok resp" and "txt \<noteq> []" and "JSON_parse rt txt = Some parsed"
    and "extractTextFromChoice (first_choice parsed) = []"
  shows "handle_body rt payload resp txt = Inl (Error ''Grok API returned an empty response.'')"
  using assms by (simp add: handle_body_def)

lemma handle_body_parse_independent:
  "handle_body (rt \<lparr> JSON_parse := parse \<rparr>) payload resp [] = handle_body rt payload resp []"
  by (simp add: handle_body_def)

text \<open>
  C10. For a success status with an empty body, \<^verbatim>\<open>generate\<close> does not call
  \<^verbatim>\<open>JSON.parse\<close> (its outcome is the same whatever \<^verbatim>\<open>JSON.parse\<close> would do) and rejects
  with \<^verbatim>\<open>Error("Grok API returned an empty response.")\<close>, which is also the rejection for a
  success response that parses and yields no text. The error
  \<^verbatim>\<open>Error("Grok API returned a non-JSON response.")\<close> is the outcome exactly when a body was
  read, is not empty and does not parse, whatever the status.
\<close>

theorem generate_empty_body:
  "(buildPayload (toJSONSchema rt) p = Inr payload
      \<and> fetch rt (build_request a payload
            (buildAbortController (AbortController_defined rt) (timeoutMs p))) = Inr resp
      \<and> ok resp \<and> body_text resp = Inr []
    \<longrightarrow> (\<forall>parse. fst (generate a (rt \<lparr> JSON_parse := parse \<rparr>) p)
                    = Inl (Error ''Grok API returned an empty response.'')))
   \<and> (buildPayload (toJSONSchema rt) p = Inr payload
      \<and> fetch rt (build_request a payload
            (buildAbortController (AbortController_defined rt) (timeoutMs p))) = Inr resp
      \<and> ok resp \<and> body_text resp = Inr txt \<and> txt \<noteq> [] \<and> JSON_parse rt txt = Some parsed
      \<and> extractTextFromChoice (first_choice parsed) = []
    \<longrightarrow> fst (generate a rt p) = Inl (Error ''Grok API returned an empty response.''))
   \<and> (fst (generate a rt p) = Inl (Error ''Grok API returned a non-JSON response.'')
    \<longleftrightarrow> (\<exists>payload resp txt.
           buildPayload (toJSONSchema rt) p = Inr payload
         \<and> fetch rt (build_request a payload
               (buildAbortController (AbortController_defined rt) (timeoutMs p))) = Inr resp
         \<and> body_text resp = Inr txt \<and> txt \<noteq> [] \<and> JSON_parse rt txt = None))"
proof (intro conjI impI allI)
  fix parse
  assume h: "buildPayload (toJSONSchema rt) p = Inr payload
      \<and> fetch rt (build_request a payload
            (buildAbortController (AbortController_defined rt) (timeoutMs p))) = Inr resp
      \<and> ok resp \<and> body_text resp = Inr []"
  let ?rt = "rt \<lparr> JSON_parse := parse \<rparr>"
  from h have built: "buildPayload (toJSONSchema ?rt) p = Inr payload" by simp
  have "handle_body ?rt payload resp [] = Inl (Error ''Grok API returned an empty response.'')"
    using h by (intro handle_body_empty_text) simp
  then show "fst (generate a ?rt p) = Inl (Error ''Grok API returned an empty response.'')"
    using h by (simp add: generate_built [OF built refl])
next
  assume h: "buildPayload (toJSONSchema rt) p = Inr payload
      \<and> fetch rt (build_request a payload
            (buildAbortController (AbortController_defined rt) (timeoutMs p))) = Inr resp
      \<and> ok resp \<and> body_text resp = Inr txt \<and> txt \<noteq> [] \<and> JSON_parse rt txt = Some parsed
      \<and> extractTextFromChoice (first_choice parsed) = []"
  then have built: "buildPayload (toJSONSchema rt) p = Inr payload" by simp
  have "handle_body rt payload resp txt = Inl (Error ''Grok API returned an empty response.'')"
    using h by (intro handle_body_no_text) blast+
  then show "fst (generate a rt p) = Inl (Error ''Grok API returned an empty response.'')"
    using h by (simp add: generate_built [OF built refl])
next
  show "fst (generate a rt p) = Inl (Error ''Grok API returned a non-JSON response.'')
    \<longleftrightarrow> (\<exists>payload resp txt.
           buildPayload (toJSONSchema rt) p = Inr payload
         \<and> fetch rt (build_request a payload
               (buildAbortController (AbortController_defined rt) (timeoutMs p))) = Inr resp
         \<and> body_text resp = Inr txt \<and> txt \<noteq> [] \<and> JSON_parse rt txt = None)"
    by (rule generate_non_json_iff)
qed

theorem generate_empty_body_witness:
  "fst (generate example_adapter
          (mock_backend \<lparr> ok = True, statusText = ''OK'', body_text = Inr [] \<rparr> Null
             \<lparr> JSON_parse := (\<lambda>s. None) \<rparr>)
          (prompt_only ''hi'')) = Inl (Error ''Grok API returned an empty response.'')
   \<and> fst (generate example_adapter
          (mock_backend \<lparr> ok = True, statusText = ''OK'', body_text = Inr success_body \<rparr>
             (Obj [(''choices'', Arr [])]))
          (prompt_only ''hi'')) = Inl (Error ''Grok API returned an empty response.'')
   \<and> fst (generate example_adapter
          (mock_backend \<lparr> ok = False, statusText = ''Bad Gateway'',
                          body_text = Inr ''<html>'' \<rparr> Null
             \<lparr> JSON_parse := (\<lambda>s. None) \<rparr>)
          (prompt_only ''hi'')) = Inl (Error ''Grok API returned a non-JSON response.'')"
proof -
  let ?payload = "Obj [(''model'', Str DEFAULT_MODEL),
                       (''messages'',
                          Arr [Obj [(''role'', Str ''user''), (''content'', Str ''hi'')]])]"
  let ?r1 = "\<lparr> ok = True, statusText = ''OK'', body_text = Inr [] \<rparr>"
  let ?r2 = "\<lparr> ok = True, statusText = ''OK'', body_text = Inr success_body \<rparr>"
  let ?r3 = "\<lparr> ok = False, statusText = ''Bad Gateway'', body_text = Inr ''<html>'' \<rparr>"
  let ?v2 = "Obj [(''choices'', Arr [])]"
  let ?rt3 = "mock_backend ?r3 Null \<lparr> JSON_parse := (\<lambda>s. None) \<rparr>"
  have built: "\<And>resp v. buildPayload (toJSONSchema (mock_backend resp v)) (prompt_only ''hi'')
                 = Inr ?payload"
    unfolding buildPayload_closed
    by (simp add: prompt_only_def sampling_entry_def nullish_or_def)
  have built3: "buildPayload (toJSONSchema ?rt3) (prompt_only ''hi'') = Inr ?payload"
    using built [of ?r3 Null] by simp
  have fetched: "\<And>resp v. fetch (mock_backend resp v)
            (build_request example_adapter ?payload
               (buildAbortController (AbortController_defined (mock_backend resp v))
                  (timeoutMs (prompt_only ''hi'')))) = Inr resp"
    by (simp add: mock_backend_def)
  have fetched3: "fetch ?rt3
            (build_request example_adapter ?payload
               (buildAbortController (AbortController_defined ?rt3)
                  (timeoutMs (prompt_only ''hi'')))) = Inr ?r3"
    by (simp add: mock_backend_def)
  have ne: "success_body \<noteq> []" by (simp add: success_body_def)
  have p2: "JSON_parse (mock_backend ?r2 ?v2) success_body = Some ?v2"
    by (simp add: mock_backend_def)
  have e2: "extractTextFromChoice (first_choice ?v2) = []"
    by (simp add: first_choice_def opt_get_def extractTextFromChoice_def)
  have p3: "JSON_parse ?rt3 ''<html>'' = None" by simp
  have "\<exists>payload resp txt.
           buildPayload (toJSONSchema ?rt3) (prompt_only ''hi'') = Inr payload
         \<and> fetch ?rt3 (build_request example_adapter payload
               (buildAbortController (AbortController_defined ?rt3)
                  (timeoutMs (prompt_only ''hi'')))) = Inr resp
         \<and> body_text resp = Inr txt \<and> txt \<noteq> [] \<and> JSON_parse ?rt3 txt = None"
    using built3 fetched3 p3 by (intro exI [of _ ?payload] exI [of _ ?r3] exI [of _ "''<html>''"]) simp
  then have g3: "fst (generate example_adapter ?rt3 (prompt_only ''hi''))
                   = Inl (Error ''Grok API returned a non-JSON response.'')"
    using generate_empty_body [of ?rt3 "prompt_only ''hi''" ?payload example_adapter ?r3 "''<html>''" Null]
    by blast
  have g1: "fst (generate example_adapter (mock_backend ?r1 Null \<lparr> JSON_parse := (\<lambda>s. None) \<rparr>)
                   (prompt_only ''hi'')) = Inl (Error ''Grok API returned an empty response.'')"
    using generate_empty_body
            [of "mock_backend ?r1 Null" "prompt_only ''hi''" ?payload example_adapter ?r1 "[]" Null]
          built [of ?r1 Null] fetched [of ?r1 Null]
    by simp
  have g2: "fst (generate example_adapter (mock_backend ?r2 ?v2) (prompt_only ''hi''))
              = Inl (Error ''Grok API returned an empty response.'')"
    using generate_empty_body
            [of "mock_backend ?r2 ?v2" "prompt_only ''hi''" ?payload example_adapter ?r2
                success_body ?v2]
          built [of ?r2 ?v2] fetched [of ?r2 ?v2] ne p2 e2
    by simp
  show ?thesis using g1 g2 g3 by simp
qed

end
